theory Spec2Isabelle
  imports Complex_Main "HOL-Library.AList" "HOL-Library.Sublist"
begin

section \<open>Effects: state passing with errors as values\<close>

text \<open>
  The obfuscator is synchronous JavaScript. Its collaborators (transformers, runners,
  the random generator) own mutable state and may throw. A computation is therefore a
  function from the state \<open>'w\<close> of the collaborators to an outcome and the state it
  leaves: \<open>Inl e\<close> is a thrown error, \<open>Inr x\<close> a returned value. The source has no
  \<open>try\<close>/\<open>catch\<close>, so every error ends the enclosing computation; the state reached
  so far is kept.
\<close>

datatype error =
    ParseError
  | GenerateError
  | ScheduleCycle
  | TransformerFailure
  | TypeError
  | OutOfFuel

type_synonym ('w, 'a) eff = "'w \<Rightarrow> (error + 'a) \<times> 'w"

definition andThen :: "('w, 'a) eff \<Rightarrow> ('a \<Rightarrow> ('w, 'b) eff) \<Rightarrow> ('w, 'b) eff" where
  "andThen m f w = (case m w of (Inl e, w') \<Rightarrow> (Inl e, w') | (Inr x, w') \<Rightarrow> f x w')"

definition succeed :: "'a \<Rightarrow> ('w, 'a) eff" where
  "succeed x w = (Inr x, w)"

section \<open>The AST model and the visitor protocol\<close>

text \<open>
  An AST node carries its variant tag, its owned children, the optional comment lists
  and the \<open>ignored\<close> flag of its metadata bag. \<open>leadingComments\<close> and
  \<open>trailingComments\<close> are \<open>None\<close> when the property is absent; a present list,
  even an empty one, is a truthy JavaScript value.
\<close>

datatype node = Node
  (nodeType: string)
  (body: "node list")
  (leadingComments: "string list option")
  (trailingComments: "string list option")
  (ignoredNode: bool)

text \<open>The sentinels of \<open>estraverse.VisitorOption\<close> that the visitor protocol names.\<close>

datatype VisitorOption = Skip | Break

text \<open>
  What a visitor function returns at run time (\<open>TVisitorResult\<close>): a node, a sentinel,
  or nothing. The fused callback assigns a result that passed the guard to its \<open>node\<close>
  variable, so the node argument of the next visitor function ranges over the same
  values.
\<close>

datatype jsValue = NodeValue node | OptionValue VisitorOption | Undefined

datatype VisitorDirection = Enter | Leave

type_synonym 'w TVisitorFunction = "jsValue \<Rightarrow> node option \<Rightarrow> ('w, jsValue) eff"

record 'w IVisitor =
  enter :: "'w TVisitorFunction option"
  leave :: "'w TVisitorFunction option"

text \<open>\<open>visitors[i][direction]\<close>: the property of the visitor object named by the direction.\<close>

fun visitorFunctionOf :: "'w IVisitor \<Rightarrow> VisitorDirection \<Rightarrow> 'w TVisitorFunction option" where
  "visitorFunctionOf v Enter = enter v"
| "visitorFunctionOf v Leave = leave v"

text \<open>JavaScript truthiness of a visitor result: objects are truthy, \<open>undefined\<close> is not.\<close>

fun truthy :: "jsValue \<Rightarrow> bool" where
  "truthy (NodeValue n) = True"
| "truthy (OptionValue opt) = True"
| "truthy Undefined = False"

text \<open>
  Modelled from the spec: \<open>NodeMetadata.isIgnoredNode\<close> is not among the sources. It
  reads the \<open>ignored\<close> flag of the node's metadata bag; a value that is not a node
  has no such flag.
\<close>

fun isIgnoredNode :: "jsValue \<Rightarrow> bool" where
  "isIgnoredNode (NodeValue n) = ignoredNode n"
| "isIgnoredNode (OptionValue opt) = False"
| "isIgnoredNode Undefined = False"

section \<open>NodeTransformersRunner\<close>

subsection \<open>mergeVisitorsForDirection\<close>

text \<open>
  \<open>NodeGuards.isNode\<close> is not among the sources; it is a parameter \<open>isNode\<close> of the
  model, so that every result below holds for whatever the guard accepts.

  The \<open>for\<close> loop of the fused callback, from index \<open>i\<close> on. \<open>visitorsLength\<close> is
  the length of the array, read once when the callback is built.
\<close>

function visitLoop ::
  "(jsValue \<Rightarrow> bool) \<Rightarrow> 'w IVisitor list \<Rightarrow> VisitorDirection \<Rightarrow> node option \<Rightarrow>
   nat \<Rightarrow> jsValue \<Rightarrow> ('w, jsValue) eff" where
  "visitLoop isNode visitors direction parentNode i node w =
     (if i < length visitors then
        (case visitorFunctionOf (visitors ! i) direction of
           None \<Rightarrow> visitLoop isNode visitors direction parentNode (i + 1) node w
         | Some visitorFunction \<Rightarrow>
             (case visitorFunction node parentNode w of
                (Inl e, w') \<Rightarrow> (Inl e, w')
              | (Inr visitorResult, w') \<Rightarrow>
                  (let isValidVisitorResult = (truthy visitorResult \<and> isNode visitorResult) in
                   if \<not> isValidVisitorResult
                   then visitLoop isNode visitors direction parentNode (i + 1) node w'
                   else visitLoop isNode visitors direction parentNode (i + 1) visitorResult w')))
      else (Inr node, w))"
  by pat_completeness auto
termination
  by (relation "measure (\<lambda>(isNode, visitors, direction, parentNode, i, node, w). length visitors - i)")
     auto

definition mergeVisitorsForDirection ::
  "(jsValue \<Rightarrow> bool) \<Rightarrow> 'w IVisitor list \<Rightarrow> VisitorDirection \<Rightarrow> 'w TVisitorFunction" where
  "mergeVisitorsForDirection isNode visitors direction =
     (let visitorsLength = length visitors in
      if visitorsLength = 0 then (\<lambda>node parentNode w. (Inr node, w))
      else (\<lambda>node parentNode w.
              if isIgnoredNode node then (Inr (OptionValue Skip), w)
              else visitLoop isNode visitors direction parentNode 0 node w))"

declare visitLoop.simps [simp del]

subsection \<open>The traversal engine\<close>

text \<open>
  Modelled from the spec: the traversal engine (\<open>estraverse.replace\<close>) is an external
  library and not among the sources, which only call it. The walk is the one of
  section 4.1, steps 2 and 3: \<open>enter\<close> on the node, where skip-subtree stops the
  descent, abort ends the whole walk and a node replaces the current one; then the
  children of the (possibly replaced) node, in order; then \<open>leave\<close> with the same
  replacement semantics, also on a node whose subtree was skipped. The engine itself
  does not read the \<open>ignored\<close> flag (step 1): section 4.2 has the flag checked once,
  at the top of the fused callback, and what that check achieves is what is proved
  below. A callback can replace a node by a larger one for ever, so the walk takes the
  depth it may reach as fuel and reports \<open>OutOfFuel\<close> beyond it.
\<close>

datatype walked = Walked node | Aborted node

definition callVisitor :: "'w TVisitorFunction option \<Rightarrow> node \<Rightarrow> node option \<Rightarrow> ('w, jsValue) eff" where
  "callVisitor f n parentNode w =
     (case f of None \<Rightarrow> (Inr Undefined, w) | Some g \<Rightarrow> g (NodeValue n) parentNode w)"

definition withBody :: "node \<Rightarrow> node list \<Rightarrow> node" where
  "withBody n cs = Node (nodeType n) cs (leadingComments n) (trailingComments n) (ignoredNode n)"

fun walk :: "nat \<Rightarrow> 'w IVisitor \<Rightarrow> node \<Rightarrow> node option \<Rightarrow> ('w, walked) eff"
and walkChildren :: "nat \<Rightarrow> 'w IVisitor \<Rightarrow> node list \<Rightarrow> node \<Rightarrow> ('w, bool \<times> node list) eff" where
  "walk 0 visitor n parentNode w = (Inl OutOfFuel, w)"
| "walk (Suc k) visitor n parentNode w =
     (case callVisitor (enter visitor) n parentNode w of
        (Inl e, w1) \<Rightarrow> (Inl e, w1)
      | (Inr (OptionValue Break), w1) \<Rightarrow> (Inr (Aborted n), w1)
      | (Inr r, w1) \<Rightarrow>
          (let n1 = (case r of NodeValue m \<Rightarrow> m | _ \<Rightarrow> n) in
           (case (if r = OptionValue Skip then (Inr (False, body n1), w1)
                  else walkChildren k visitor (body n1) n1 w1) of
              (Inl e, w2) \<Rightarrow> (Inl e, w2)
            | (Inr (True, cs), w2) \<Rightarrow> (Inr (Aborted (withBody n1 cs)), w2)
            | (Inr (False, cs), w2) \<Rightarrow>
                (case callVisitor (leave visitor) (withBody n1 cs) parentNode w2 of
                   (Inl e, w3) \<Rightarrow> (Inl e, w3)
                 | (Inr (OptionValue Break), w3) \<Rightarrow> (Inr (Aborted (withBody n1 cs)), w3)
                 | (Inr (NodeValue m), w3) \<Rightarrow> (Inr (Walked m), w3)
                 | (Inr _, w3) \<Rightarrow> (Inr (Walked (withBody n1 cs)), w3)))))"
| "walkChildren k visitor [] parentNode w = (Inr (False, []), w)"
| "walkChildren k visitor (c # cs) parentNode w =
     (case walk k visitor c (Some parentNode) w of
        (Inl e, w1) \<Rightarrow> (Inl e, w1)
      | (Inr (Aborted c'), w1) \<Rightarrow> (Inr (True, c' # cs), w1)
      | (Inr (Walked c'), w1) \<Rightarrow>
          (case walkChildren k visitor cs parentNode w1 of
             (Inl e, w2) \<Rightarrow> (Inl e, w2)
           | (Inr (aborted, cs'), w2) \<Rightarrow> (Inr (aborted, c' # cs'), w2)))"

text \<open>\<open>replace(astTree, {enter, leave})\<close>: the walk from the root, which has no parent.\<close>

definition replace :: "nat \<Rightarrow> node \<Rightarrow> 'w IVisitor \<Rightarrow> ('w, node) eff" where
  "replace fuel astTree visitor w =
     (case walk fuel visitor astTree None w of
        (Inl e, w') \<Rightarrow> (Inl e, w')
      | (Inr (Walked n), w') \<Rightarrow> (Inr n, w')
      | (Inr (Aborted n), w') \<Rightarrow> (Inr n, w'))"

subsection \<open>Stages, transformer names and the transformer interface\<close>

text \<open>
  The enumerations are imported by the sources; their members here are the ones the
  sources name, in the order in which they name them.
\<close>

datatype NodeTransformationStage =
    Initializing
  | Preparing
  | DeadCodeInjection
  | ControlFlowFlattening
  | RenameProperties
  | Converting
  | RenameIdentifiers
  | StringArray
  | Simplifying
  | Finalizing

datatype NodeTransformer =
    BooleanLiteralTransformer
  | BlockStatementControlFlowTransformer
  | BlockStatementSimplifyTransformer
  | ClassFieldTransformer
  | CommentsTransformer
  | CustomCodeHelpersTransformer
  | DeadCodeInjectionTransformer
  | EscapeSequenceTransformer
  | EvalCallExpressionTransformer
  | ExportSpecifierTransformer
  | ExpressionStatementsMergeTransformer
  | FunctionControlFlowTransformer
  | IfStatementSimplifyTransformer
  | LabeledStatementTransformer
  | RenamePropertiesTransformer
  | MemberExpressionTransformer
  | MetadataTransformer
  | NumberLiteralTransformer
  | NumberToNumericalExpressionTransformer
  | ObfuscatingGuardsTransformer
  | ObjectExpressionKeysTransformer
  | ObjectExpressionTransformer
  | ObjectPatternPropertiesTransformer
  | ParentificationTransformer
  | ScopeIdentifiersTransformer
  | ScopeThroughIdentifiersTransformer
  | SplitStringTransformer
  | StringArrayControlFlowTransformer
  | StringArrayRotateFunctionTransformer
  | StringArrayScopeCallsWrapperTransformer
  | StringArrayTransformer
  | TemplateLiteralTransformer
  | DirectivePlacementTransformer
  | VariableDeclarationsMergeTransformer
  | VariablePreserveTransformer

text \<open>\<open>INodeTransformer\<close>: what the runner uses of a transformer is \<open>getVisitor\<close>.\<close>

record 'w INodeTransformer =
  getVisitor :: "NodeTransformationStage \<Rightarrow> 'w IVisitor option"

text \<open>
  \<open>TDictionary<INodeTransformer>\<close>: a JavaScript object keyed by transformer name. Its
  keys keep their insertion order, so it is an association list; \<open>{...acc, [name]: t}\<close>
  is \<open>AList.update\<close>, which overwrites a present key in place and appends a new one.
\<close>

type_synonym 'w TDictionary = "(NodeTransformer \<times> 'w INodeTransformer) list"

text \<open>
  The runner's two injected collaborators, and the two imports that are not among the
  sources: the guard \<open>NodeGuards.isNode\<close> and the engine \<open>estraverse.replace\<close>. The
  engine rewrites the tree it is given in place, and \<open>transform\<close> goes on with that
  tree, not with what the engine returns; the model has the engine return the tree as
  rewritten in place.
\<close>

record 'w NodeTransformersRunner =
  nodeTransformerFactory :: "NodeTransformer \<Rightarrow> ('w, 'w INodeTransformer) eff"
  nodeTransformerNamesGroupsBuilder_build :: "'w TDictionary \<Rightarrow> ('w, NodeTransformer list list) eff"
  NodeGuards_isNode :: "jsValue \<Rightarrow> bool"
  estraverse_replace :: "node \<Rightarrow> 'w IVisitor \<Rightarrow> ('w, node) eff"

subsection \<open>buildNormalizedNodeTransformers\<close>

text \<open>The \<open>reduce\<close> over the transformer names, with its accumulator.\<close>

fun buildNormalizedNodeTransformers_reduce ::
  "'w NodeTransformersRunner \<Rightarrow> NodeTransformationStage \<Rightarrow> NodeTransformer list \<Rightarrow>
   'w TDictionary \<Rightarrow> ('w, 'w TDictionary) eff" where
  "buildNormalizedNodeTransformers_reduce this nodeTransformationStage [] acc w = (Inr acc, w)"
| "buildNormalizedNodeTransformers_reduce this nodeTransformationStage (nodeTransformerName # names) acc w =
     (case nodeTransformerFactory this nodeTransformerName w of
        (Inl e, w') \<Rightarrow> (Inl e, w')
      | (Inr nodeTransformer, w') \<Rightarrow>
          (case getVisitor nodeTransformer nodeTransformationStage of
             None \<Rightarrow> buildNormalizedNodeTransformers_reduce this nodeTransformationStage names acc w'
           | Some visitor \<Rightarrow>
               buildNormalizedNodeTransformers_reduce this nodeTransformationStage names
                 (AList.update nodeTransformerName nodeTransformer acc) w'))"

definition buildNormalizedNodeTransformers ::
  "'w NodeTransformersRunner \<Rightarrow> NodeTransformer list \<Rightarrow> NodeTransformationStage \<Rightarrow>
   ('w, 'w TDictionary) eff" where
  "buildNormalizedNodeTransformers this nodeTransformerNames nodeTransformationStage =
     buildNormalizedNodeTransformers_reduce this nodeTransformationStage nodeTransformerNames []"

subsection \<open>transform\<close>

text \<open>
  The inner loop of \<open>transform\<close> over the names of one group: it fills
  \<open>enterVisitors\<close> and \<open>leaveVisitors\<close>. A name that the dictionary does not hold
  yields \<open>undefined\<close>, and the call of \<open>getVisitor\<close> on it throws a \<open>TypeError\<close>.
\<close>

fun collectVisitors ::
  "'w TDictionary \<Rightarrow> NodeTransformationStage \<Rightarrow> NodeTransformer list \<Rightarrow>
   'w IVisitor list \<times> 'w IVisitor list \<Rightarrow> error + 'w IVisitor list \<times> 'w IVisitor list" where
  "collectVisitors normalizedNodeTransformers nodeTransformationStage [] (enterVisitors, leaveVisitors) =
     Inr (enterVisitors, leaveVisitors)"
| "collectVisitors normalizedNodeTransformers nodeTransformationStage (nodeTransformerName # names)
     (enterVisitors, leaveVisitors) =
     (case map_of normalizedNodeTransformers nodeTransformerName of
        None \<Rightarrow> Inl TypeError
      | Some nodeTransformer \<Rightarrow>
          (case getVisitor nodeTransformer nodeTransformationStage of
             None \<Rightarrow>
               collectVisitors normalizedNodeTransformers nodeTransformationStage names
                 (enterVisitors, leaveVisitors)
           | Some visitor \<Rightarrow>
               collectVisitors normalizedNodeTransformers nodeTransformationStage names
                 (if enter visitor \<noteq> None
                  then enterVisitors @ [\<lparr>enter = enter visitor, leave = None\<rparr>]
                  else enterVisitors,
                  if leave visitor \<noteq> None
                  then leaveVisitors @ [\<lparr>enter = None, leave = leave visitor\<rparr>]
                  else leaveVisitors)))"

text \<open>The outer loop over the groups: one traversal for each group that has a visitor.\<close>

fun transformGroups ::
  "'w NodeTransformersRunner \<Rightarrow> 'w TDictionary \<Rightarrow> NodeTransformationStage \<Rightarrow>
   NodeTransformer list list \<Rightarrow> node \<Rightarrow> ('w, node) eff" where
  "transformGroups this normalizedNodeTransformers nodeTransformationStage [] astTree w =
     (Inr astTree, w)"
| "transformGroups this normalizedNodeTransformers nodeTransformationStage
     (nodeTransformerNamesGroup # groups) astTree w =
     (case collectVisitors normalizedNodeTransformers nodeTransformationStage
             nodeTransformerNamesGroup ([], []) of
        Inl e \<Rightarrow> (Inl e, w)
      | Inr (enterVisitors, leaveVisitors) \<Rightarrow>
          if enterVisitors = [] \<and> leaveVisitors = []
          then transformGroups this normalizedNodeTransformers nodeTransformationStage groups astTree w
          else
            (case estraverse_replace this astTree
                    \<lparr>enter = Some (mergeVisitorsForDirection (NodeGuards_isNode this) enterVisitors Enter),
                     leave = Some (mergeVisitorsForDirection (NodeGuards_isNode this) leaveVisitors Leave)\<rparr> w of
               (Inl e, w') \<Rightarrow> (Inl e, w')
             | (Inr astTree', w') \<Rightarrow>
                 transformGroups this normalizedNodeTransformers nodeTransformationStage groups astTree' w'))"

definition transform ::
  "'w NodeTransformersRunner \<Rightarrow> node \<Rightarrow> NodeTransformer list \<Rightarrow> NodeTransformationStage \<Rightarrow>
   ('w, node) eff" where
  "transform this astTree nodeTransformerNames nodeTransformationStage =
     (if length nodeTransformerNames = 0 then succeed astTree
      else
        andThen (buildNormalizedNodeTransformers this nodeTransformerNames nodeTransformationStage)
          (\<lambda>normalizedNodeTransformers.
             andThen (nodeTransformerNamesGroupsBuilder_build this normalizedNodeTransformers)
               (\<lambda>nodeTransformerNamesGroups.
                  transformGroups this normalizedNodeTransformers nodeTransformationStage
                    nodeTransformerNamesGroups astTree)))"

section \<open>JavaScriptObfuscator: the stage driver\<close>

subsection \<open>Enumerations, options and the values crossing the interfaces\<close>

datatype CodeTransformationStage = PreparingTransformers | FinalizingTransformers

datatype CodeTransformer = HashbangOperatorTransformer

datatype LoggingMessage =
    Version
  | ObfuscationStarted
  | RandomGeneratorSeed
  | CodeTransformationStage
  | NodeTransformationStage
  | EmptySourceCode
  | ObfuscationCompleted

text \<open>The sources name \<open>SourcesContent\<close>; section 6 of the specification gives the other mode.\<close>

datatype SourceMapSourcesMode = Sources | SourcesContent

record IOptions =
  compact :: bool
  deadCodeInjection :: bool
  renameProperties :: bool
  simplify :: bool
  sourceMap :: bool
  sourceMapSourcesMode :: SourceMapSourcesMode
  inputFileName :: string

text \<open>
  What a caller can pass as \<open>sourceCode\<close> at run time, whatever the declared type says,
  and the \<open>typeof\<close> operator on it.
\<close>

datatype jsInput = JSUndefined | JSNull | JSBoolean bool | JSNumber int | JSString string | JSObject

fun typeof :: "jsInput \<Rightarrow> string" where
  "typeof JSUndefined = ''undefined''"
| "typeof JSNull = ''object''"
| "typeof (JSBoolean b) = ''boolean''"
| "typeof (JSNumber n) = ''number''"
| "typeof (JSString s) = ''string''"
| "typeof JSObject = ''object''"

fun stringOf :: "jsInput \<Rightarrow> string" where
  "stringOf (JSString s) = s"
| "stringOf v = []"

text \<open>The options of the parser (\<open>acorn.Options\<close>) and of the generator (\<open>escodegen.GenerateOptions\<close>).\<close>

record acornOptions =
  ecmaVersion :: nat
  allowHashBang :: bool
  allowImportExportEverywhere :: bool
  allowReturnOutsideFunction :: bool
  locations :: bool
  ranges :: bool

record FormatOptions =
  format_compact :: bool

record GenerateOptions =
  comment :: bool
  verbatim :: string
  sourceMapWithCode :: bool
  format :: "FormatOptions option"
  generate_sourceMap :: "string option"
  sourceContent :: "string option"

text \<open>
  The \<open>map\<close> property of the generator output: the generator leaves \<open>null\<close> or a
  source-map object, of which the model keeps what its \<open>toString()\<close> returns;
  \<open>generateCode\<close> then overwrites the property with a string.
\<close>

datatype mapValue = MapNull | MapObject string | MapString string

fun truthyMap :: "mapValue \<Rightarrow> bool" where
  "truthyMap MapNull = False"
| "truthyMap (MapObject str) = True"
| "truthyMap (MapString str) = (str \<noteq> [])"

fun toString :: "mapValue \<Rightarrow> string" where
  "toString (MapObject str) = str"
| "toString (MapString str) = str"
| "toString MapNull = []"

record IGeneratorOutput =
  generatorOutput_code :: string
  generatorOutput_map :: mapValue

text \<open>
  Modelled from the spec: the result type and its factory are not among the sources. The
  result is the pair \<open>{ code, map }\<close> of section 6, read through \<open>getObfuscatedCode\<close>
  (which \<open>debug/index.js\<close> calls) and \<open>getSourceMap\<close>; the factory stores its two
  arguments.
\<close>

record IObfuscationResult =
  getObfuscatedCode :: string
  getSourceMap :: mapValue

definition obfuscationResultFactory :: "string \<Rightarrow> mapValue \<Rightarrow> IObfuscationResult" where
  "obfuscationResultFactory obfuscatedCode sourceMapValue =
     \<lparr>getObfuscatedCode = obfuscatedCode, getSourceMap = sourceMapValue\<rparr>"

subsection \<open>The state of a call\<close>

text \<open>
  The state of a call is the trace of what the driver has asked of its collaborators so
  far, in order and with the arguments, together with the state \<open>'w\<close> of the
  collaborators. The logger is modelled by its calls in the trace. The \<open>console.log\<close>
  lines of the source print debugging output and are left out.
\<close>

datatype logValue =
    NoValue
  | StringValue string
  | NumberValue real
  | CodeStageValue CodeTransformationStage
  | NodeStageValue NodeTransformationStage

datatype event =
    LoggerInfo LoggingMessage logValue
  | LoggerWarn LoggingMessage logValue
  | LoggerSuccess LoggingMessage logValue
  | CodeTransformersRunnerTransform string "CodeTransformer list" CodeTransformationStage
  | NodeTransformersRunnerTransform node "NodeTransformer list" NodeTransformationStage
  | ASTParserFacadeParse string acornOptions
  | EscodegenGenerate node GenerateOptions

record 'w world =
  trace :: "event list"
  collaboratorState :: 'w

definition logger_info :: "LoggingMessage \<Rightarrow> logValue \<Rightarrow> ('w world, unit) eff" where
  "logger_info message v s = (Inr (), s\<lparr>trace := trace s @ [LoggerInfo message v]\<rparr>)"

definition logger_warn :: "LoggingMessage \<Rightarrow> logValue \<Rightarrow> ('w world, unit) eff" where
  "logger_warn message v s = (Inr (), s\<lparr>trace := trace s @ [LoggerWarn message v]\<rparr>)"

definition logger_success :: "LoggingMessage \<Rightarrow> logValue \<Rightarrow> ('w world, unit) eff" where
  "logger_success message v s = (Inr (), s\<lparr>trace := trace s @ [LoggerSuccess message v]\<rparr>)"

text \<open>
  A call of a collaborator that has state: the call is entered in the trace and runs on
  the collaborators' state. The collaborator cannot read or change the trace.
\<close>

definition collaborator :: "event \<Rightarrow> ('w, 'a) eff \<Rightarrow> ('w world, 'a) eff" where
  "collaborator ev m s =
     (case m (collaboratorState s) of
        (r, w') \<Rightarrow> (r, \<lparr>trace = trace s @ [ev], collaboratorState = w'\<rparr>))"

text \<open>A call of an imported function without state, which returns or throws.\<close>

definition imported :: "event \<Rightarrow> error + 'a \<Rightarrow> ('w world, 'a) eff" where
  "imported ev r s = (r, s\<lparr>trace := trace s @ [ev]\<rparr>)"

subsection \<open>The class and what it imports\<close>

text \<open>
  The injected collaborators of the class (the logger and the result factory are
  modelled above), and under them what the module imports or reads from its
  environment: the parser facade, the generator, \<open>Utils.buildVersionMessage\<close>, the
  constant \<open>ecmaVersion\<close>, \<open>process.env\<close>, and the clock, given by the value of each
  reading of \<open>Date.now()\<close> that the call makes.
\<close>

record 'w JavaScriptObfuscator =
  codeTransformersRunner_transform ::
    "string \<Rightarrow> CodeTransformer list \<Rightarrow> CodeTransformationStage \<Rightarrow> ('w, string) eff"
  nodeTransformersRunner_transform ::
    "node \<Rightarrow> NodeTransformer list \<Rightarrow> NodeTransformationStage \<Rightarrow> ('w, node) eff"
  randomGenerator_getInputSeed :: "'w \<Rightarrow> string"
  options :: IOptions
  ASTParserFacade_parse :: "string \<Rightarrow> acornOptions \<Rightarrow> error + node"
  escodegen_generate :: "node \<Rightarrow> GenerateOptions \<Rightarrow> error + IGeneratorOutput"
  Utils_buildVersionMessage :: "string option \<Rightarrow> string option \<Rightarrow> string"
  constants_ecmaVersion :: nat

record environment =
  process_env_VERSION :: "string option"
  process_env_BUILD_TIMESTAMP :: "string option"
  Date_now :: "nat \<Rightarrow> int"

definition parseOptions :: "'w JavaScriptObfuscator \<Rightarrow> acornOptions" where
  "parseOptions this =
     \<lparr>ecmaVersion = constants_ecmaVersion this,
      allowHashBang = True,
      allowImportExportEverywhere = True,
      allowReturnOutsideFunction = True,
      locations = True,
      ranges = True\<rparr>"

definition escodegenParams :: GenerateOptions where
  "escodegenParams =
     \<lparr>comment = True,
      verbatim = ''x-verbatim-property'',
      sourceMapWithCode = True,
      format = None,
      generate_sourceMap = None,
      sourceContent = None\<rparr>"

definition codeTransformersList :: "CodeTransformer list" where
  "codeTransformersList = [HashbangOperatorTransformer]"

definition nodeTransformersList :: "NodeTransformer list" where
  "nodeTransformersList =
     [BooleanLiteralTransformer,
      BlockStatementControlFlowTransformer,
      BlockStatementSimplifyTransformer,
      ClassFieldTransformer,
      CommentsTransformer,
      CustomCodeHelpersTransformer,
      DeadCodeInjectionTransformer,
      EscapeSequenceTransformer,
      EvalCallExpressionTransformer,
      ExportSpecifierTransformer,
      ExpressionStatementsMergeTransformer,
      FunctionControlFlowTransformer,
      IfStatementSimplifyTransformer,
      LabeledStatementTransformer,
      RenamePropertiesTransformer,
      MemberExpressionTransformer,
      MetadataTransformer,
      NumberLiteralTransformer,
      NumberToNumericalExpressionTransformer,
      ObfuscatingGuardsTransformer,
      ObjectExpressionKeysTransformer,
      ObjectExpressionTransformer,
      ObjectPatternPropertiesTransformer,
      ParentificationTransformer,
      ScopeIdentifiersTransformer,
      ScopeThroughIdentifiersTransformer,
      SplitStringTransformer,
      StringArrayControlFlowTransformer,
      StringArrayRotateFunctionTransformer,
      StringArrayScopeCallsWrapperTransformer,
      StringArrayTransformer,
      TemplateLiteralTransformer,
      DirectivePlacementTransformer,
      VariableDeclarationsMergeTransformer,
      VariablePreserveTransformer]"

subsection \<open>The methods\<close>

definition runCodeTransformationStage ::
  "'w JavaScriptObfuscator \<Rightarrow> string \<Rightarrow> CodeTransformationStage \<Rightarrow> ('w world, string) eff" where
  "runCodeTransformationStage this code codeTransformationStage =
     andThen (logger_info CodeTransformationStage (CodeStageValue codeTransformationStage))
       (\<lambda>u. collaborator
          (CodeTransformersRunnerTransform code codeTransformersList codeTransformationStage)
          (codeTransformersRunner_transform this code codeTransformersList codeTransformationStage))"

definition runNodeTransformationStage ::
  "'w JavaScriptObfuscator \<Rightarrow> node \<Rightarrow> NodeTransformationStage \<Rightarrow> ('w world, node) eff" where
  "runNodeTransformationStage this astTree nodeTransformationStage =
     andThen (logger_info NodeTransformationStage (NodeStageValue nodeTransformationStage))
       (\<lambda>u. collaborator
          (NodeTransformersRunnerTransform astTree nodeTransformersList nodeTransformationStage)
          (nodeTransformersRunner_transform this astTree nodeTransformersList nodeTransformationStage))"

definition parseCode :: "'w JavaScriptObfuscator \<Rightarrow> string \<Rightarrow> ('w world, node) eff" where
  "parseCode this sourceCode =
     imported (ASTParserFacadeParse sourceCode (parseOptions this))
       (ASTParserFacade_parse this sourceCode (parseOptions this))"

text \<open>
  Modelled from the spec: \<open>NodeGuards.isProgramNode\<close> is not among the sources; a
  Program node is a node whose variant tag is \<open>Program\<close>.
\<close>

definition isProgramNode :: "node \<Rightarrow> bool" where
  "isProgramNode n = (nodeType n = ''Program'')"

text \<open>The local constant \<open>isEmptyAstTree\<close> of \<open>transformAstTree\<close>.\<close>

definition isEmptyAstTree :: "node \<Rightarrow> bool" where
  "isEmptyAstTree astTree =
     (isProgramNode astTree
      \<and> length (body astTree) = 0
      \<and> leadingComments astTree = None
      \<and> trailingComments astTree = None)"

definition transformAstTree :: "'w JavaScriptObfuscator \<Rightarrow> node \<Rightarrow> ('w world, node) eff" where
  "transformAstTree this astTree0 =
     andThen (runNodeTransformationStage this astTree0 Initializing) (\<lambda>astTree.
       if isEmptyAstTree astTree
       then andThen (logger_warn EmptySourceCode NoValue) (\<lambda>u. succeed astTree)
       else
     andThen (runNodeTransformationStage this astTree Preparing) (\<lambda>astTree.
     andThen (if deadCodeInjection (options this)
              then runNodeTransformationStage this astTree DeadCodeInjection
              else succeed astTree) (\<lambda>astTree.
     andThen (runNodeTransformationStage this astTree ControlFlowFlattening) (\<lambda>astTree.
     andThen (if renameProperties (options this)
              then runNodeTransformationStage this astTree RenameProperties
              else succeed astTree) (\<lambda>astTree.
     andThen (runNodeTransformationStage this astTree Converting) (\<lambda>astTree.
     andThen (runNodeTransformationStage this astTree RenameIdentifiers) (\<lambda>astTree.
     andThen (runNodeTransformationStage this astTree StringArray) (\<lambda>astTree.
     andThen (if simplify (options this)
              then runNodeTransformationStage this astTree Simplifying
              else succeed astTree) (\<lambda>astTree.
     andThen (runNodeTransformationStage this astTree Finalizing) (\<lambda>astTree.
       succeed astTree))))))))))"

text \<open>
  The local constant \<open>escodegenParams\<close> of \<open>generateCode\<close>: the static parameters, then
  \<open>format\<close>, then, only when \<open>options.sourceMap\<close> is set, the properties of one of the
  two object literals. \<open>inputFileName || 'sourceMap'\<close> takes the file name unless it is
  the empty string.
\<close>

definition generateCode_escodegenParams :: "'w JavaScriptObfuscator \<Rightarrow> string \<Rightarrow> GenerateOptions" where
  "generateCode_escodegenParams this sourceCode =
     (let params = escodegenParams\<lparr>format := Some \<lparr>format_compact = compact (options this)\<rparr>\<rparr> in
      if sourceMap (options this) then
        (if sourceMapSourcesMode (options this) = SourcesContent
         then params\<lparr>generate_sourceMap := Some ''sourceMap'', sourceContent := Some sourceCode\<rparr>
         else params\<lparr>generate_sourceMap :=
                Some (if inputFileName (options this) \<noteq> [] then inputFileName (options this)
                      else ''sourceMap'')\<rparr>)
      else params)"

definition generateCode ::
  "'w JavaScriptObfuscator \<Rightarrow> string \<Rightarrow> node \<Rightarrow> ('w world, IGeneratorOutput) eff" where
  "generateCode this sourceCode astTree =
     andThen (imported (EscodegenGenerate astTree (generateCode_escodegenParams this sourceCode))
                (escodegen_generate this astTree (generateCode_escodegenParams this sourceCode)))
       (\<lambda>generatorOutput.
          succeed (generatorOutput\<lparr>generatorOutput_map :=
            MapString (if truthyMap (generatorOutput_map generatorOutput)
                       then toString (generatorOutput_map generatorOutput)
                       else [])\<rparr>))"

definition getObfuscationResult :: "IGeneratorOutput \<Rightarrow> IObfuscationResult" where
  "getObfuscationResult generatorOutput =
     obfuscationResultFactory (generatorOutput_code generatorOutput) (generatorOutput_map generatorOutput)"

definition obfuscate ::
  "'w JavaScriptObfuscator \<Rightarrow> environment \<Rightarrow> jsInput \<Rightarrow> ('w world, IObfuscationResult) eff" where
  "obfuscate this env sourceCode0 =
     (let sourceCode = (if typeof sourceCode0 \<noteq> ''string'' then [] else stringOf sourceCode0);
          timeStart = Date_now env 0
      in
     andThen (logger_info Version
                (StringValue (Utils_buildVersionMessage this (process_env_VERSION env)
                                (process_env_BUILD_TIMESTAMP env)))) (\<lambda>u.
     andThen (logger_info ObfuscationStarted NoValue) (\<lambda>u.
     andThen (\<lambda>s. logger_info RandomGeneratorSeed
                     (StringValue (randomGenerator_getInputSeed this (collaboratorState s))) s) (\<lambda>u.
     andThen (runCodeTransformationStage this sourceCode PreparingTransformers) (\<lambda>sourceCode.
     andThen (parseCode this sourceCode) (\<lambda>astTree.
     andThen (transformAstTree this astTree) (\<lambda>obfuscatedAstTree.
     andThen (generateCode this sourceCode obfuscatedAstTree) (\<lambda>generatorOutput.
     andThen (runCodeTransformationStage this (generatorOutput_code generatorOutput)
                FinalizingTransformers) (\<lambda>code.
       (let generatorOutput = generatorOutput\<lparr>generatorOutput_code := code\<rparr>;
            obfuscationTime = real_of_int (Date_now env 1 - timeStart) / 1000
        in
     andThen (logger_success ObfuscationCompleted (NumberValue obfuscationTime)) (\<lambda>u.
       succeed (getObfuscationResult generatorOutput))))))))))))"

section \<open>What the specification says, as definitions\<close>

subsection \<open>Fusion of visitors\<close>

text \<open>
  Section 4.2: the callbacks of one direction, collected in the order of the batch, and
  the threading of the current node through them. A callback's output becomes the next
  callback's input if it is a valid node; any other output is ignored. A callback that
  throws ends the threading.
\<close>

fun componentCallbacks :: "'w IVisitor list \<Rightarrow> VisitorDirection \<Rightarrow> 'w TVisitorFunction list" where
  "componentCallbacks [] direction = []"
| "componentCallbacks (visitor # visitors) direction =
     (case visitorFunctionOf visitor direction of
        None \<Rightarrow> componentCallbacks visitors direction
      | Some f \<Rightarrow> f # componentCallbacks visitors direction)"

fun threadNode ::
  "(jsValue \<Rightarrow> bool) \<Rightarrow> 'w TVisitorFunction list \<Rightarrow> node option \<Rightarrow> jsValue \<Rightarrow> ('w, jsValue) eff" where
  "threadNode isNode [] parentNode node w = (Inr node, w)"
| "threadNode isNode (f # fs) parentNode node w =
     (case f node parentNode w of
        (Inl e, w') \<Rightarrow> (Inl e, w')
      | (Inr r, w') \<Rightarrow>
          threadNode isNode fs parentNode (if truthy r \<and> isNode r then r else node) w')"

text \<open>
  Whether a transformer of a batch contributes a visitor function for a direction, and
  the list that \<open>transform\<close> hands to \<open>mergeVisitorsForDirection\<close> for a direction.
\<close>

fun contributes ::
  "'w TDictionary \<Rightarrow> NodeTransformationStage \<Rightarrow> VisitorDirection \<Rightarrow> NodeTransformer \<Rightarrow> bool" where
  "contributes normalizedNodeTransformers nodeTransformationStage direction nodeTransformerName =
     (case map_of normalizedNodeTransformers nodeTransformerName of
        None \<Rightarrow> False
      | Some nodeTransformer \<Rightarrow>
          (case getVisitor nodeTransformer nodeTransformationStage of
             None \<Rightarrow> False
           | Some visitor \<Rightarrow> visitorFunctionOf visitor direction \<noteq> None))"

fun visitorsFor :: "VisitorDirection \<Rightarrow> 'w IVisitor list \<times> 'w IVisitor list \<Rightarrow> 'w IVisitor list" where
  "visitorsFor Enter (enterVisitors, leaveVisitors) = enterVisitors"
| "visitorsFor Leave (enterVisitors, leaveVisitors) = leaveVisitors"

subsection \<open>The canonical order of the node stages\<close>

text \<open>
  Section 4.4: the canonical order, the stages that an option switches, and the run of a
  list of stages one after the other on the current tree.
\<close>

definition canonicalOrder :: "NodeTransformationStage list" where
  "canonicalOrder =
     [Initializing, Preparing, DeadCodeInjection, ControlFlowFlattening, RenameProperties,
      Converting, RenameIdentifiers, StringArray, Simplifying, Finalizing]"

fun stageEnabled :: "IOptions \<Rightarrow> NodeTransformationStage \<Rightarrow> bool" where
  "stageEnabled opts DeadCodeInjection = deadCodeInjection opts"
| "stageEnabled opts RenameProperties = renameProperties opts"
| "stageEnabled opts Simplifying = simplify opts"
| "stageEnabled opts stage = True"

fun runStages ::
  "'w JavaScriptObfuscator \<Rightarrow> NodeTransformationStage list \<Rightarrow> node \<Rightarrow> ('w world, node) eff" where
  "runStages this [] astTree = succeed astTree"
| "runStages this (stage # stages) astTree =
     andThen (runNodeTransformationStage this astTree stage) (runStages this stages)"

subsection \<open>The source text of a call\<close>

text \<open>
  Section 6: a source that is not a string is coerced to the empty string. The events
  with which every call starts, before the preparing code stage.
\<close>

definition sourceText :: "jsInput \<Rightarrow> string" where
  "sourceText v = (if typeof v \<noteq> ''string'' then [] else stringOf v)"

definition startEvents :: "'w JavaScriptObfuscator \<Rightarrow> environment \<Rightarrow> 'w \<Rightarrow> event list" where
  "startEvents this env w =
     [LoggerInfo Version (StringValue (Utils_buildVersionMessage this (process_env_VERSION env)
                                         (process_env_BUILD_TIMESTAMP env))),
      LoggerInfo ObfuscationStarted NoValue,
      LoggerInfo RandomGeneratorSeed (StringValue (randomGenerator_getInputSeed this w))]"

subsection \<open>Computations that do not depend on the trace\<close>

text \<open>
  Two computations agree when, started in states with the same collaborators' state,
  they have the same outcome and leave the same collaborators' state, whatever the
  traces are.
\<close>

definition agree :: "('w world, 'a) eff \<Rightarrow> ('w world, 'a) eff \<Rightarrow> bool" where
  "agree m m' =
     (\<forall>s s'. collaboratorState s = collaboratorState s' \<longrightarrow>
        fst (m s) = fst (m' s') \<and> collaboratorState (snd (m s)) = collaboratorState (snd (m' s')))"

subsection \<open>Reading the trace\<close>

text \<open>
  The node stages for which the node transformers runner was called, and the trees and
  options with which the generator was called, each in the order of the calls.
\<close>

fun nodeStageOf :: "event \<Rightarrow> NodeTransformationStage list" where
  "nodeStageOf (NodeTransformersRunnerTransform astTree names stage) = [stage]"
| "nodeStageOf ev = []"

definition nodeStagesRun :: "event list \<Rightarrow> NodeTransformationStage list" where
  "nodeStagesRun evs = concat (map nodeStageOf evs)"

fun generateCallOf :: "event \<Rightarrow> (node \<times> GenerateOptions) list" where
  "generateCallOf (EscodegenGenerate astTree params) = [(astTree, params)]"
| "generateCallOf ev = []"

definition generateCalls :: "event list \<Rightarrow> (node \<times> GenerateOptions) list" where
  "generateCalls evs = concat (map generateCallOf evs)"

section \<open>Example inputs\<close>

subsection \<open>Nodes and visitors\<close>

text \<open>
  The collaborators' state of these examples is the number of visitor invocations so
  far: every example visitor function counts its own invocation.
\<close>

definition exampleIsNode :: "jsValue \<Rightarrow> bool" where
  "exampleIsNode v = (case v of NodeValue n \<Rightarrow> True | OptionValue opt \<Rightarrow> False | Undefined \<Rightarrow> False)"

definition identifierNode :: node where
  "identifierNode = Node ''Identifier'' [] None None False"

definition literalNode :: node where
  "literalNode = Node ''Literal'' [] None None False"

definition ignoredFunctionNode :: node where
  "ignoredFunctionNode = Node ''FunctionExpression'' [identifierNode] None None True"

definition replaceByLiteral :: "nat TVisitorFunction" where
  "replaceByLiteral node parentNode w = (Inr (NodeValue literalNode), Suc w)"

definition observeOnly :: "nat TVisitorFunction" where
  "observeOnly node parentNode w = (Inr Undefined, Suc w)"

fun leaveOnlyVisitor :: "NodeTransformationStage \<Rightarrow> nat IVisitor option" where
  "leaveOnlyVisitor Preparing = Some \<lparr>enter = None, leave = Some observeOnly\<rparr>"
| "leaveOnlyVisitor stage = None"

definition exampleDictionary :: "nat TDictionary" where
  "exampleDictionary = [(CommentsTransformer, \<lparr>getVisitor = leaveOnlyVisitor\<rparr>)]"

text \<open>
  A runner for a run of \<open>transform\<close>: a transformer with an enter visitor that
  replaces identifiers by a literal, a transformer with the observing leave visitor,
  and transformers without a visitor; one group of all active transformers; the
  traversal engine with fuel for a tree of depth three.
\<close>

definition literalizeIdentifier :: "nat TVisitorFunction" where
  "literalizeIdentifier node parentNode w =
     (case node of
        NodeValue n \<Rightarrow>
          if nodeType n = ''Identifier'' then (Inr (NodeValue literalNode), Suc w)
          else (Inr Undefined, Suc w)
      | OptionValue opt \<Rightarrow> (Inr Undefined, Suc w)
      | Undefined \<Rightarrow> (Inr Undefined, Suc w))"

fun enterOnlyVisitor :: "NodeTransformationStage \<Rightarrow> nat IVisitor option" where
  "enterOnlyVisitor Preparing = Some \<lparr>enter = Some literalizeIdentifier, leave = None\<rparr>"
| "enterOnlyVisitor stage = None"

fun noVisitor :: "NodeTransformationStage \<Rightarrow> nat IVisitor option" where
  "noVisitor stage = None"

fun exampleFactory :: "NodeTransformer \<Rightarrow> (nat, nat INodeTransformer) eff" where
  "exampleFactory BooleanLiteralTransformer w = (Inr \<lparr>getVisitor = enterOnlyVisitor\<rparr>, w)"
| "exampleFactory CommentsTransformer w = (Inr \<lparr>getVisitor = leaveOnlyVisitor\<rparr>, w)"
| "exampleFactory name w = (Inr \<lparr>getVisitor = noVisitor\<rparr>, w)"

definition exampleGroupsBuilder :: "nat TDictionary \<Rightarrow> (nat, NodeTransformer list list) eff" where
  "exampleGroupsBuilder normalizedNodeTransformers w = (Inr [map fst normalizedNodeTransformers], w)"

definition exampleRunner :: "nat NodeTransformersRunner" where
  "exampleRunner =
     \<lparr>nodeTransformerFactory = exampleFactory,
      nodeTransformerNamesGroupsBuilder_build = exampleGroupsBuilder,
      NodeGuards_isNode = exampleIsNode,
      estraverse_replace = replace 3\<rparr>"

definition exampleTree :: node where
  "exampleTree = Node ''Program'' [identifierNode, ignoredFunctionNode] None None False"

subsection \<open>An obfuscator\<close>

text \<open>
  Collaborators for a run of the driver. The code transformers runner is the one of
  scenario 3 in section 8 of the specification: the preparing stage strips a hashbang
  line and remembers it in the collaborators' state, the finalizing stage puts it back.
  The node transformers runner leaves the tree as it is; the parser yields a Program
  with no statement for the empty text and with one statement otherwise; the generator
  writes the source map it was asked for.
\<close>

definition lineFeed :: char where
  "lineFeed = CHR 0x0A"

fun exampleCodeTransformersRunner ::
  "string \<Rightarrow> CodeTransformer list \<Rightarrow> CodeTransformationStage \<Rightarrow> (string, string) eff" where
  "exampleCodeTransformersRunner code names PreparingTransformers w =
     (if take 2 code = ''#!''
      then (Inr (drop 1 (dropWhile (\<lambda>c. c \<noteq> lineFeed) code)),
            takeWhile (\<lambda>c. c \<noteq> lineFeed) code @ [lineFeed])
      else (Inr code, w))"
| "exampleCodeTransformersRunner code names FinalizingTransformers w = (Inr (w @ code), w)"

definition exampleNodeTransformersRunner ::
  "node \<Rightarrow> NodeTransformer list \<Rightarrow> NodeTransformationStage \<Rightarrow> (string, node) eff" where
  "exampleNodeTransformersRunner astTree names stage w = (Inr astTree, w)"

definition exampleParse :: "string \<Rightarrow> acornOptions \<Rightarrow> error + node" where
  "exampleParse code opts =
     Inr (Node ''Program''
            (if code = [] then [] else [Node ''ExpressionStatement'' [] None None False])
            None None False)"

definition exampleGenerate :: "node \<Rightarrow> GenerateOptions \<Rightarrow> error + IGeneratorOutput" where
  "exampleGenerate astTree params =
     Inr \<lparr>generatorOutput_code = (if body astTree = [] then [] else ''a;''),
          generatorOutput_map =
            (case generate_sourceMap params of
               None \<Rightarrow> MapNull
             | Some file \<Rightarrow>
                 MapObject (file @ (case sourceContent params of None \<Rightarrow> [] | Some c \<Rightarrow> '':'' @ c)))\<rparr>"

definition exampleBuildVersionMessage :: "string option \<Rightarrow> string option \<Rightarrow> string" where
  "exampleBuildVersionMessage version buildTimestamp =
     (case version of None \<Rightarrow> ''unknown'' | Some v \<Rightarrow> v)"

definition exampleGetInputSeed :: "string \<Rightarrow> string" where
  "exampleGetInputSeed w = ''seed''"

definition exampleObfuscator :: "IOptions \<Rightarrow> string JavaScriptObfuscator" where
  "exampleObfuscator opts =
     \<lparr>codeTransformersRunner_transform = exampleCodeTransformersRunner,
      nodeTransformersRunner_transform = exampleNodeTransformersRunner,
      randomGenerator_getInputSeed = exampleGetInputSeed,
      options = opts,
      ASTParserFacade_parse = exampleParse,
      escodegen_generate = exampleGenerate,
      Utils_buildVersionMessage = exampleBuildVersionMessage,
      constants_ecmaVersion = 11\<rparr>"

definition exampleOptions :: IOptions where
  "exampleOptions =
     \<lparr>compact = False, deadCodeInjection = False, renameProperties = False, simplify = True,
      sourceMap = True, sourceMapSourcesMode = SourcesContent, inputFileName = []\<rparr>"

definition plainOptions :: IOptions where
  "plainOptions =
     \<lparr>compact = True, deadCodeInjection = False, renameProperties = False, simplify = False,
      sourceMap = False, sourceMapSourcesMode = Sources, inputFileName = []\<rparr>"

definition fileOptions :: IOptions where
  "fileOptions =
     \<lparr>compact = True, deadCodeInjection = False, renameProperties = False, simplify = False,
      sourceMap = True, sourceMapSourcesMode = Sources, inputFileName = ''input.js''\<rparr>"

definition exampleEnvironment :: environment where
  "exampleEnvironment =
     \<lparr>process_env_VERSION = Some ''2.0'', process_env_BUILD_TIMESTAMP = None,
      Date_now = (\<lambda>k. 1000 + 500 * int k)\<rparr>"

definition initialWorld :: "string world" where
  "initialWorld = \<lparr>trace = [], collaboratorState = []\<rparr>"

definition exampleProgram :: node where
  "exampleProgram = Node ''Program'' [Node ''ExpressionStatement'' [] None None False] None None False"

definition emptyProgram :: node where
  "emptyProgram = Node ''Program'' [] None None False"

definition hashbangSource :: string where
  "hashbangSource = ''#!/usr/bin/env node'' @ [lineFeed] @ ''var a=1;''"

definition plainSource :: string where
  "plainSource = ''var a=1;''"

lemmas example_defs =
  exampleObfuscator_def exampleOptions_def plainOptions_def fileOptions_def
  exampleEnvironment_def initialWorld_def
  exampleProgram_def emptyProgram_def exampleNodeTransformersRunner_def exampleParse_def
  exampleGenerate_def exampleBuildVersionMessage_def exampleGetInputSeed_def

lemmas driver_defs =
  obfuscate_def transformAstTree_def runNodeTransformationStage_def runCodeTransformationStage_def
  parseCode_def generateCode_def getObfuscationResult_def obfuscationResultFactory_def
  generateCode_escodegenParams_def escodegenParams_def isEmptyAstTree_def isProgramNode_def
  andThen_def succeed_def logger_info_def logger_warn_def logger_success_def collaborator_def
  imported_def

section \<open>The fused callback\<close>

subsection \<open>The loop is the threading of the specification\<close>

lemma visitLoop_threadNode:
  "visitLoop isNode visitors direction parentNode i node w =
   threadNode isNode (componentCallbacks (drop i visitors) direction) parentNode node w"
proof (induction "length visitors - i" arbitrary: i node w)
  case 0
  then have "\<not> i < length visitors" by simp
  then show ?case
    by (simp add: visitLoop.simps [of _ _ _ _ i])
next
  case (Suc k)
  then have lt: "i < length visitors" and k: "k = length visitors - Suc i" by simp_all
  have d: "drop i visitors = visitors ! i # drop (Suc i) visitors"
    using lt by (simp add: Cons_nth_drop_Suc)
  have IH: "\<And>node w. visitLoop isNode visitors direction parentNode (Suc i) node w =
      threadNode isNode (componentCallbacks (drop (Suc i) visitors) direction) parentNode node w"
    using Suc.hyps(1) [OF k] .
  show ?case
    using lt
    by (simp add: visitLoop.simps [of _ _ _ _ i] d IH Let_def
             split: option.split prod.split sum.split)
qed

lemma mergeVisitorsForDirection_Nil:
  "mergeVisitorsForDirection isNode [] direction node parentNode w = (Inr node, w)"
  by (simp add: mergeVisitorsForDirection_def)

lemma mergeVisitorsForDirection_ignored:
  "visitors \<noteq> [] \<Longrightarrow> isIgnoredNode node \<Longrightarrow>
   mergeVisitorsForDirection isNode visitors direction node parentNode w = (Inr (OptionValue Skip), w)"
  by (simp add: mergeVisitorsForDirection_def)

text \<open>
  Claim C3, as amended. For every fused callback built for a batch and a direction, and
  every node whose \<open>ignored\<close> flag is not set (or any node, when the direction has no
  visitor), the component visitor functions are executed in the batch's order,
  threading the node through: a component's result that is truthy and passes
  \<open>NodeGuards.isNode\<close> becomes the input of the next component, any other result is
  ignored and the previous node is passed on; the fused callback returns the final
  threaded node. The state is threaded along with the node, so the order of the
  invocations is part of the equation; a component that throws ends the callback with
  its error.
\<close>

theorem mergeVisitorsForDirection_threads_node:
  assumes "visitors = [] \<or> \<not> isIgnoredNode node"
  shows "mergeVisitorsForDirection isNode visitors direction node parentNode w =
         threadNode isNode (componentCallbacks visitors direction) parentNode node w"
proof (cases visitors)
  case Nil
  then show ?thesis by (simp add: mergeVisitorsForDirection_Nil)
next
  case (Cons visitor rest)
  with assms have "\<not> isIgnoredNode node" by simp
  with Cons have "mergeVisitorsForDirection isNode visitors direction node parentNode w =
      visitLoop isNode visitors direction parentNode 0 node w"
    by (simp add: mergeVisitorsForDirection_def)
  then show ?thesis by (simp add: visitLoop_threadNode)
qed

text \<open>
  Three components on a node that is not ignored: the first and the third only observe,
  the second replaces the node. All three are invoked and the replacement is returned.
  And no component on an ignored node: the node is returned.
\<close>

theorem mergeVisitorsForDirection_threads_node_witness:
  "\<not> isIgnoredNode (NodeValue identifierNode) \<and>
   mergeVisitorsForDirection exampleIsNode
     [\<lparr>enter = Some observeOnly, leave = None\<rparr>, \<lparr>enter = Some replaceByLiteral, leave = None\<rparr>,
      \<lparr>enter = Some observeOnly, leave = None\<rparr>]
     Enter (NodeValue identifierNode) None 0 = (Inr (NodeValue literalNode), 3) \<and>
   mergeVisitorsForDirection exampleIsNode [] Leave (NodeValue ignoredFunctionNode) None (0::nat)
     = (Inr (NodeValue ignoredFunctionNode), 0)"
  using mergeVisitorsForDirection_threads_node [of
     "[\<lparr>enter = Some observeOnly, leave = None\<rparr>, \<lparr>enter = Some replaceByLiteral, leave = None\<rparr>,
      \<lparr>enter = Some observeOnly, leave = None\<rparr>]" "NodeValue identifierNode" exampleIsNode
     Enter None 0]
    mergeVisitorsForDirection_threads_node [of
     "[] :: nat IVisitor list" "NodeValue ignoredFunctionNode" exampleIsNode Leave None 0]
  by (simp add: identifierNode_def observeOnly_def replaceByLiteral_def exampleIsNode_def)

text \<open>
  The claim as stated fails on an ignored node: the fused callback of one replacing
  component returns the skip-subtree sentinel and invokes nothing, where threading the
  node through the component gives the replacement after one invocation.
\<close>

theorem threading_ignored_node_counterexample:
  "mergeVisitorsForDirection exampleIsNode [\<lparr>enter = Some replaceByLiteral, leave = None\<rparr>]
     Enter (NodeValue ignoredFunctionNode) None 0 = (Inr (OptionValue Skip), 0) \<and>
   threadNode exampleIsNode (componentCallbacks [\<lparr>enter = Some replaceByLiteral, leave = None\<rparr>] Enter)
     None (NodeValue ignoredFunctionNode) 0 = (Inr (NodeValue literalNode), 1)"
  by (simp add: mergeVisitorsForDirection_def ignoredFunctionNode_def replaceByLiteral_def exampleIsNode_def)

subsection \<open>Ignored nodes\<close>

lemma withBody_body: "withBody n (body n) = n"
  by (cases n) (simp add: withBody_def)

lemma walk_ignored:
  assumes "ignoredNode n" and "enterVisitors \<noteq> []"
  shows "walk (Suc k)
           \<lparr>enter = Some (mergeVisitorsForDirection isNode enterVisitors Enter),
            leave = Some (mergeVisitorsForDirection isNode leaveVisitors Leave)\<rparr>
           n parentNode w = (Inr (Walked n), w)"
proof (cases "leaveVisitors = []")
  case True
  with assms show ?thesis
    by (simp add: callVisitor_def mergeVisitorsForDirection_ignored mergeVisitorsForDirection_Nil
          withBody_body)
next
  case False
  with assms show ?thesis
    by (simp add: callVisitor_def mergeVisitorsForDirection_ignored withBody_body)
qed

text \<open>
  Claim C4, as amended. For every node passed to a fused callback that was built from
  at least one visitor, if the node's \<open>ignored\<close> flag is set then the callback returns
  the skip-subtree sentinel and leaves the state as it was, whatever the component
  callbacks are: none of them is invoked on that node. Consequently, in a traversal
  whose enter direction has at least one visitor, the walk of an ignored node returns
  that node unchanged and leaves the state as it was: the node and its entire subtree
  receive no visitor invocation.
\<close>

theorem ignored_node_skipped:
  assumes "ignoredNode n"
  shows "(visitors \<noteq> [] \<longrightarrow>
            mergeVisitorsForDirection isNode visitors direction (NodeValue n) parentNode w
              = (Inr (OptionValue Skip), w)) \<and>
         (enterVisitors \<noteq> [] \<longrightarrow>
            walk (Suc fuel)
              \<lparr>enter = Some (mergeVisitorsForDirection isNode enterVisitors Enter),
               leave = Some (mergeVisitorsForDirection isNode leaveVisitors Leave)\<rparr>
              n parentNode w = (Inr (Walked n), w))"
proof (intro conjI impI)
  assume "visitors \<noteq> []"
  with assms show "mergeVisitorsForDirection isNode visitors direction (NodeValue n) parentNode w
      = (Inr (OptionValue Skip), w)"
    by (simp add: mergeVisitorsForDirection_ignored)
next
  assume "enterVisitors \<noteq> []"
  with assms show "walk (Suc fuel)
      \<lparr>enter = Some (mergeVisitorsForDirection isNode enterVisitors Enter),
       leave = Some (mergeVisitorsForDirection isNode leaveVisitors Leave)\<rparr>
      n parentNode w = (Inr (Walked n), w)"
    by (rule walk_ignored)
qed

text \<open>
  An ignored function expression with one child, a replacing enter visitor and an
  observing leave visitor: the count of invocations stays at zero.
\<close>

theorem ignored_node_skipped_witness:
  "ignoredNode ignoredFunctionNode \<and>
   [\<lparr>enter = Some replaceByLiteral, leave = None\<rparr>] \<noteq> [] \<and>
   mergeVisitorsForDirection exampleIsNode [\<lparr>enter = Some replaceByLiteral, leave = None\<rparr>] Enter
     (NodeValue ignoredFunctionNode) None 0 = (Inr (OptionValue Skip), 0) \<and>
   walk 2
     \<lparr>enter = Some (mergeVisitorsForDirection exampleIsNode
                       [\<lparr>enter = Some replaceByLiteral, leave = None\<rparr>] Enter),
      leave = Some (mergeVisitorsForDirection exampleIsNode
                       [\<lparr>enter = None, leave = Some observeOnly\<rparr>] Leave)\<rparr>
     ignoredFunctionNode None 0 = (Inr (Walked ignoredFunctionNode), 0)"
  using ignored_node_skipped [of ignoredFunctionNode "[\<lparr>enter = Some replaceByLiteral, leave = None\<rparr>]"
              exampleIsNode Enter None 0 "[\<lparr>enter = Some replaceByLiteral, leave = None\<rparr>]"
              1 "[\<lparr>enter = None, leave = Some observeOnly\<rparr>]"]
  by (simp add: ignoredFunctionNode_def numeral_2_eq_2)

text \<open>
  The claim as stated fails for the callback of a direction without visitors: it is
  passed an ignored node and returns that node, not the skip-subtree sentinel.
\<close>

theorem ignored_node_empty_direction_counterexample:
  "isIgnoredNode (NodeValue ignoredFunctionNode) \<and>
   mergeVisitorsForDirection exampleIsNode [] Enter (NodeValue ignoredFunctionNode) None (0::nat)
     = (Inr (NodeValue ignoredFunctionNode), 0)"
  by (simp add: mergeVisitorsForDirection_def ignoredFunctionNode_def)

text \<open>
  What that means for a traversal: in a batch that has a leave visitor and no enter
  visitor, the walk descends into the ignored node, and the leave visitor is invoked
  once, on the child.
\<close>

lemma leave_only_batch_visits_ignored_subtree:
  "walk 2
     \<lparr>enter = Some (mergeVisitorsForDirection exampleIsNode [] Enter),
      leave = Some (mergeVisitorsForDirection exampleIsNode
                       [\<lparr>enter = None, leave = Some observeOnly\<rparr>] Leave)\<rparr>
     ignoredFunctionNode None 0 = (Inr (Walked ignoredFunctionNode), 1)"
  by (simp add: numeral_2_eq_2 callVisitor_def mergeVisitorsForDirection_def ignoredFunctionNode_def
        identifierNode_def observeOnly_def withBody_def visitLoop.simps exampleIsNode_def)

subsection \<open>A direction without visitors\<close>

lemma collectVisitors_no_contribution:
  "collectVisitors d st names acc = Inr acc' \<Longrightarrow>
   list_all (\<lambda>name. \<not> contributes d st direction name) names \<Longrightarrow>
   visitorsFor direction acc' = visitorsFor direction acc"
proof (induction names arbitrary: acc)
  case Nil
  then show ?case by (cases acc) simp
next
  case (Cons name names)
  obtain es ls where acc: "acc = (es, ls)" by (cases acc)
  from Cons.prems(1) acc obtain nt where nt: "map_of d name = Some nt"
    by (cases "map_of d name") simp_all
  show ?case
  proof (cases "getVisitor nt st")
    case None
    with Cons nt acc show ?thesis by simp
  next
    case (Some v)
    from Cons.prems(2) nt Some have none: "visitorFunctionOf v direction = None" by simp
    let ?acc1 = "(if enter v \<noteq> None then es @ [\<lparr>enter = enter v, leave = None\<rparr>] else es,
                  if leave v \<noteq> None then ls @ [\<lparr>enter = None, leave = leave v\<rparr>] else ls)"
    from Cons.prems(1) nt Some acc have "collectVisitors d st names ?acc1 = Inr acc'" by simp
    moreover from Cons.prems(2) have "list_all (\<lambda>name. \<not> contributes d st direction name) names"
      by simp
    ultimately have "visitorsFor direction acc' = visitorsFor direction ?acc1"
      by (rule Cons.IH)
    also from none have "visitorsFor direction ?acc1 = visitorsFor direction (es, ls)"
      by (cases direction) simp_all
    finally show ?thesis by (simp add: acc)
  qed
qed

text \<open>
  Claim C10. The callback merged from no visitors returns its input node and leaves the
  state as it was, for every node and every direction. When no transformer of a batch
  contributes a visitor function for a direction, the list that \<open>transform\<close> collects
  for that direction is empty, so the callback merged for it returns every node
  \<open>NodeValue n\<close> unchanged, which is not the skip-subtree sentinel, also when the
  node's \<open>ignored\<close> flag is set.
\<close>

theorem mergeVisitorsForDirection_no_visitors:
  "mergeVisitorsForDirection isNode [] direction node parentNode w = (Inr node, w) \<and>
   (collectVisitors normalizedNodeTransformers nodeTransformationStage nodeTransformerNamesGroup ([], [])
      = Inr collected \<longrightarrow>
    list_all (\<lambda>name. \<not> contributes normalizedNodeTransformers nodeTransformationStage direction name)
      nodeTransformerNamesGroup \<longrightarrow>
    mergeVisitorsForDirection isNode (visitorsFor direction collected) direction (NodeValue n) parentNode w
      = (Inr (NodeValue n), w))"
proof (intro conjI impI)
  show "mergeVisitorsForDirection isNode [] direction node parentNode w = (Inr node, w)"
    by (rule mergeVisitorsForDirection_Nil)
next
  assume "collectVisitors normalizedNodeTransformers nodeTransformationStage nodeTransformerNamesGroup ([], [])
      = Inr collected"
    and "list_all (\<lambda>name. \<not> contributes normalizedNodeTransformers nodeTransformationStage direction name)
      nodeTransformerNamesGroup"
  then have "visitorsFor direction collected = visitorsFor direction ([], [])"
    by (rule collectVisitors_no_contribution)
  then have "visitorsFor direction collected = []"
    by (cases direction) simp_all
  then show "mergeVisitorsForDirection isNode (visitorsFor direction collected) direction (NodeValue n) parentNode w
      = (Inr (NodeValue n), w)"
    by (simp add: mergeVisitorsForDirection_Nil)
qed

text \<open>
  A batch of one transformer whose visitor has a leave function only: the enter
  direction gets no visitor, and its callback returns an ignored node as it is.
\<close>

theorem mergeVisitorsForDirection_no_visitors_witness:
  "collectVisitors exampleDictionary Preparing [CommentsTransformer] ([], [])
     = Inr ([], [\<lparr>enter = None, leave = Some observeOnly\<rparr>]) \<and>
   list_all (\<lambda>name. \<not> contributes exampleDictionary Preparing Enter name) [CommentsTransformer] \<and>
   mergeVisitorsForDirection exampleIsNode
     (visitorsFor Enter ([], [\<lparr>enter = None, leave = Some observeOnly\<rparr>])) Enter
     (NodeValue ignoredFunctionNode) None (0::nat) = (Inr (NodeValue ignoredFunctionNode), 0)"
  using mergeVisitorsForDirection_no_visitors
          [of exampleIsNode Enter "NodeValue ignoredFunctionNode" None "0::nat" exampleDictionary
              Preparing "[CommentsTransformer]" "([], [\<lparr>enter = None, leave = Some observeOnly\<rparr>])"
              ignoredFunctionNode]
  by (simp add: exampleDictionary_def)

section \<open>The runner without transformer names\<close>

text \<open>
  Claim C9. For every AST tree and every node transformation stage, \<open>transform\<close> with
  an empty list of transformer names returns the input tree and leaves the state of the
  collaborators as it was, whatever the factory, the groups builder and the traversal
  engine are: no transformer is instantiated and no traversal is performed.
\<close>

theorem transform_no_transformer_names:
  "transform this astTree [] nodeTransformationStage w = (Inr astTree, w)"
  by (simp add: transform_def succeed_def)

text \<open>
  For comparison, a run with three transformer names on a Program with an identifier
  and an ignored function expression: the two transformers that have a visitor for the
  stage form one batch, the identifier is replaced on enter, the ignored function
  expression and its child are not visited, and the visitor functions are invoked four
  times in all.
\<close>

lemma transform_example:
  "transform exampleRunner exampleTree
     [BooleanLiteralTransformer, MetadataTransformer, CommentsTransformer] Preparing 0
   = (Inr (Node ''Program'' [literalNode, ignoredFunctionNode] None None False), 4)"
  by (simp add: transform_def andThen_def succeed_def buildNormalizedNodeTransformers_def
        exampleRunner_def exampleGroupsBuilder_def exampleTree_def replace_def
        numeral_3_eq_3 callVisitor_def mergeVisitorsForDirection_def visitLoop.simps
        literalizeIdentifier_def observeOnly_def exampleIsNode_def identifierNode_def
        ignoredFunctionNode_def literalNode_def withBody_def Let_def)

section \<open>The order of the node stages\<close>

lemma andThen_Inr: "m s = (Inr x, s1) \<Longrightarrow> andThen m f s = f x s1"
  by (simp add: andThen_def)

lemma andThen_Inl: "m s = (Inl e, s1) \<Longrightarrow> andThen m f s = (Inl e, s1)"
  by (simp add: andThen_def)

lemma andThen_succeed: "andThen (succeed x) f = f x"
  by (rule ext) (simp add: andThen_def succeed_def)

lemma andThen_return: "andThen m succeed = m"
  by (rule ext) (simp add: andThen_def succeed_def split: prod.split sum.split)

lemma andThen_InrD:
  "andThen m f s = (Inr y, s') \<Longrightarrow> \<exists>x s1. m s = (Inr x, s1) \<and> f x s1 = (Inr y, s')"
  by (auto simp: andThen_def split: prod.splits sum.splits)

lemma runNodeTransformationStage_eq:
  "runNodeTransformationStage this astTree stage s =
     (case nodeTransformersRunner_transform this astTree nodeTransformersList stage (collaboratorState s) of
        (r, w') \<Rightarrow>
          (r, \<lparr>trace = trace s @ [LoggerInfo NodeTransformationStage (NodeStageValue stage),
                                   NodeTransformersRunnerTransform astTree nodeTransformersList stage],
               collaboratorState = w'\<rparr>))"
  by (simp add: runNodeTransformationStage_def andThen_def logger_info_def collaborator_def
        split: prod.split)

lemma runStages_Nil: "runStages this [] = succeed"
  by (rule ext) simp

lemma runStages_Cons:
  "runStages this (stage # stages) =
     (\<lambda>astTree. andThen (runNodeTransformationStage this astTree stage) (runStages this stages))"
  by (rule ext) simp

lemma stages_after_Initializing:
  "andThen (runNodeTransformationStage this astTree Preparing) (\<lambda>astTree.
     andThen (if deadCodeInjection (options this)
              then runNodeTransformationStage this astTree DeadCodeInjection
              else succeed astTree) (\<lambda>astTree.
     andThen (runNodeTransformationStage this astTree ControlFlowFlattening) (\<lambda>astTree.
     andThen (if renameProperties (options this)
              then runNodeTransformationStage this astTree RenameProperties
              else succeed astTree) (\<lambda>astTree.
     andThen (runNodeTransformationStage this astTree Converting) (\<lambda>astTree.
     andThen (runNodeTransformationStage this astTree RenameIdentifiers) (\<lambda>astTree.
     andThen (runNodeTransformationStage this astTree StringArray) (\<lambda>astTree.
     andThen (if simplify (options this)
              then runNodeTransformationStage this astTree Simplifying
              else succeed astTree) (\<lambda>astTree.
     andThen (runNodeTransformationStage this astTree Finalizing) (\<lambda>astTree.
       succeed astTree)))))))))
   = runStages this (filter (stageEnabled (options this)) (tl canonicalOrder)) astTree"
  by (cases "deadCodeInjection (options this)"; cases "renameProperties (options this)";
      cases "simplify (options this)")
     (simp_all add: canonicalOrder_def andThen_succeed andThen_return runStages_Nil runStages_Cons)

lemma transformAstTree_runStages:
  "transformAstTree this astTree =
     andThen (runNodeTransformationStage this astTree Initializing)
       (\<lambda>astTree1.
          if isEmptyAstTree astTree1
          then andThen (logger_warn EmptySourceCode NoValue) (\<lambda>u. succeed astTree1)
          else runStages this (filter (stageEnabled (options this)) (tl canonicalOrder)) astTree1)"
  unfolding transformAstTree_def stages_after_Initializing ..

lemma nodeStagesRun_append [simp]: "nodeStagesRun (xs @ ys) = nodeStagesRun xs @ nodeStagesRun ys"
  by (simp add: nodeStagesRun_def)

lemma generateCalls_append [simp]: "generateCalls (xs @ ys) = generateCalls xs @ generateCalls ys"
  by (simp add: generateCalls_def)

lemma nodeStagesRun_simps [simp]:
  "nodeStagesRun [] = []"
  "nodeStagesRun (ev # evs) = nodeStageOf ev @ nodeStagesRun evs"
  by (simp_all add: nodeStagesRun_def)

lemma generateCalls_simps [simp]:
  "generateCalls [] = []"
  "generateCalls (ev # evs) = generateCallOf ev @ generateCalls evs"
  by (simp_all add: generateCalls_def)

lemma runStages_trace:
  "runStages this stages astTree s = (r, s') \<Longrightarrow>
   \<exists>evs. trace s' = trace s @ evs \<and> prefix (nodeStagesRun evs) stages \<and>
         (\<not> isl r \<longrightarrow> nodeStagesRun evs = stages) \<and> generateCalls evs = []"
proof (induction stages arbitrary: astTree s)
  case Nil
  then show ?case by (auto simp: succeed_def)
next
  case (Cons stage stages)
  obtain r1 w1 where run:
    "nodeTransformersRunner_transform this astTree nodeTransformersList stage (collaboratorState s) = (r1, w1)"
    by (cases "nodeTransformersRunner_transform this astTree nodeTransformersList stage (collaboratorState s)")
  let ?evs = "[LoggerInfo NodeTransformationStage (NodeStageValue stage),
               NodeTransformersRunnerTransform astTree nodeTransformersList stage]"
  let ?s1 = "\<lparr>trace = trace s @ ?evs, collaboratorState = w1\<rparr>"
  have step: "runNodeTransformationStage this astTree stage s = (r1, ?s1)"
    by (simp add: runNodeTransformationStage_eq run)
  show ?case
  proof (cases r1)
    case (Inl e)
    with step Cons.prems have "r = Inl e" "s' = ?s1"
      by (simp_all add: andThen_Inl)
    then show ?thesis by simp
  next
    case (Inr astTree1)
    with step Cons.prems have "runStages this stages astTree1 ?s1 = (r, s')"
      by (simp add: andThen_Inr)
    from Cons.IH [OF this] obtain evs where
      "trace s' = trace ?s1 @ evs" "prefix (nodeStagesRun evs) stages"
      "\<not> isl r \<longrightarrow> nodeStagesRun evs = stages" "generateCalls evs = []" by blast
    then have "trace s' = trace s @ (?evs @ evs) \<and> prefix (nodeStagesRun (?evs @ evs)) (stage # stages) \<and>
         (\<not> isl r \<longrightarrow> nodeStagesRun (?evs @ evs) = stage # stages) \<and> generateCalls (?evs @ evs) = []"
      by simp
    then show ?thesis by blast
  qed
qed

lemma transformAstTree_empty:
  assumes "runNodeTransformationStage this astTree Initializing s = (Inr astTree1, s1)"
    and "isEmptyAstTree astTree1"
  shows "transformAstTree this astTree s =
           (Inr astTree1, s1\<lparr>trace := trace s1 @ [LoggerWarn EmptySourceCode NoValue]\<rparr>)"
  using assms
  by (simp add: transformAstTree_runStages andThen_Inr logger_warn_def andThen_def succeed_def)

lemma runNodeTransformationStage_trace:
  "runNodeTransformationStage this astTree stage s = (r, s1) \<Longrightarrow>
   trace s1 = trace s @ [LoggerInfo NodeTransformationStage (NodeStageValue stage),
                         NodeTransformersRunnerTransform astTree nodeTransformersList stage]"
  by (auto simp: runNodeTransformationStage_eq split: prod.splits)

text \<open>
  Claim C1, as amended. For every call of \<open>transformAstTree\<close> in which the Initializing
  stage returns, the node stages for which the runner is called are, in this order:
  Initializing alone if the tree that Initializing returns is an empty Program (empty
  body, no leading and no trailing comments); otherwise the canonical order
  Initializing, Preparing, DeadCodeInjection, ControlFlowFlattening, RenameProperties,
  Converting, RenameIdentifiers, StringArray, Simplifying, Finalizing, where
  DeadCodeInjection, RenameProperties and Simplifying run if and only if their option
  is enabled and every other stage runs. A call in which a stage throws has run a
  prefix of that list; no other order is ever produced.
\<close>

theorem transformAstTree_stage_order:
  assumes init: "runNodeTransformationStage this astTree Initializing s = (Inr astTree1, s1)"
    and run: "transformAstTree this astTree s = (result, s')"
  shows "\<exists>stages. nodeStagesRun (trace s') = nodeStagesRun (trace s) @ stages \<and>
           prefix stages
             (if isEmptyAstTree astTree1 then [Initializing]
              else filter (stageEnabled (options this)) canonicalOrder) \<and>
           (\<not> isl result \<longrightarrow>
              stages = (if isEmptyAstTree astTree1 then [Initializing]
                        else filter (stageEnabled (options this)) canonicalOrder))"
proof (cases "isEmptyAstTree astTree1")
  case True
  from transformAstTree_empty [OF init True] run
  have "s' = s1\<lparr>trace := trace s1 @ [LoggerWarn EmptySourceCode NoValue]\<rparr>" by simp
  with runNodeTransformationStage_trace [OF init] True show ?thesis by simp
next
  case False
  let ?rest = "filter (stageEnabled (options this)) (tl canonicalOrder)"
  have all: "filter (stageEnabled (options this)) canonicalOrder = Initializing # ?rest"
    by (simp add: canonicalOrder_def)
  from run init False have "runStages this ?rest astTree1 s1 = (result, s')"
    by (simp add: transformAstTree_runStages andThen_Inr)
  from runStages_trace [OF this] obtain evs where
    "trace s' = trace s1 @ evs" "prefix (nodeStagesRun evs) ?rest"
    "\<not> isl result \<longrightarrow> nodeStagesRun evs = ?rest" by blast
  with runNodeTransformationStage_trace [OF init] False all
  have "nodeStagesRun (trace s') = nodeStagesRun (trace s) @ (Initializing # nodeStagesRun evs) \<and>
        prefix (Initializing # nodeStagesRun evs)
          (if isEmptyAstTree astTree1 then [Initializing]
           else filter (stageEnabled (options this)) canonicalOrder) \<and>
        (\<not> isl result \<longrightarrow> Initializing # nodeStagesRun evs =
           (if isEmptyAstTree astTree1 then [Initializing]
            else filter (stageEnabled (options this)) canonicalOrder))"
    by simp
  then show ?thesis by blast
qed

text \<open>
  A Program with one statement, with \<open>simplify\<close> enabled and the two other optional
  stages disabled: the call returns and has run the eight stages that are enabled. On
  the empty Program the call returns and has run Initializing alone.
\<close>

theorem transformAstTree_stage_order_witness:
  "runNodeTransformationStage (exampleObfuscator exampleOptions) exampleProgram Initializing initialWorld
     = (Inr exampleProgram,
        snd (runNodeTransformationStage (exampleObfuscator exampleOptions) exampleProgram Initializing initialWorld)) \<and>
   \<not> isl (fst (transformAstTree (exampleObfuscator exampleOptions) exampleProgram initialWorld)) \<and>
   nodeStagesRun (trace (snd (transformAstTree (exampleObfuscator exampleOptions) exampleProgram initialWorld)))
     = [Initializing, Preparing, ControlFlowFlattening, Converting, RenameIdentifiers, StringArray,
        Simplifying, Finalizing] \<and>
   isEmptyAstTree emptyProgram \<and>
   \<not> isl (fst (transformAstTree (exampleObfuscator exampleOptions) emptyProgram initialWorld)) \<and>
   nodeStagesRun (trace (snd (transformAstTree (exampleObfuscator exampleOptions) emptyProgram initialWorld)))
     = [Initializing]"
proof -
  have e1: "runNodeTransformationStage (exampleObfuscator exampleOptions) emptyProgram Initializing initialWorld
     = (Inr emptyProgram,
        snd (runNodeTransformationStage (exampleObfuscator exampleOptions) emptyProgram Initializing initialWorld))"
    by (simp add: runNodeTransformationStage_eq exampleObfuscator_def exampleNodeTransformersRunner_def)
  have e2: "transformAstTree (exampleObfuscator exampleOptions) emptyProgram initialWorld =
     (fst (transformAstTree (exampleObfuscator exampleOptions) emptyProgram initialWorld),
      snd (transformAstTree (exampleObfuscator exampleOptions) emptyProgram initialWorld))" by simp
  have eok: "\<not> isl (fst (transformAstTree (exampleObfuscator exampleOptions) emptyProgram initialWorld))"
    by (simp add: driver_defs example_defs)
  have em: "isEmptyAstTree emptyProgram"
    by (simp add: isEmptyAstTree_def isProgramNode_def emptyProgram_def)
  from transformAstTree_stage_order [OF e1 e2] eok em
  have empty_case: "nodeStagesRun (trace (snd (transformAstTree (exampleObfuscator exampleOptions)
      emptyProgram initialWorld))) = [Initializing]"
    by (simp add: initialWorld_def)
  let ?obf = "exampleObfuscator exampleOptions"
  have h1: "runNodeTransformationStage ?obf exampleProgram Initializing initialWorld
     = (Inr exampleProgram, snd (runNodeTransformationStage ?obf exampleProgram Initializing initialWorld))"
    by (simp add: runNodeTransformationStage_eq exampleObfuscator_def exampleNodeTransformersRunner_def)
  have h2: "transformAstTree ?obf exampleProgram initialWorld =
     (fst (transformAstTree ?obf exampleProgram initialWorld),
      snd (transformAstTree ?obf exampleProgram initialWorld))" by simp
  have ok: "\<not> isl (fst (transformAstTree ?obf exampleProgram initialWorld))"
    by (simp add: driver_defs example_defs)
  have ne: "\<not> isEmptyAstTree exampleProgram"
    by (simp add: isEmptyAstTree_def exampleProgram_def)
  from transformAstTree_stage_order [OF h1 h2] ok ne h1 eok em empty_case show ?thesis
    by (simp add: canonicalOrder_def exampleObfuscator_def exampleOptions_def initialWorld_def)
qed

text \<open>
  The claim as stated fails on the empty source text: the call of \<open>obfuscate\<close> runs
  Initializing and no other node stage, although seven more stages are enabled, which
  the claim has run unconditionally.
\<close>

theorem stage_order_empty_source_counterexample:
  "nodeStagesRun (trace (snd (obfuscate (exampleObfuscator exampleOptions) exampleEnvironment
      (JSString []) initialWorld))) = [Initializing] \<and>
   filter (stageEnabled (options (exampleObfuscator exampleOptions))) canonicalOrder
     = [Initializing, Preparing, ControlFlowFlattening, Converting, RenameIdentifiers, StringArray,
        Simplifying, Finalizing]"
  by (simp add: driver_defs example_defs canonicalOrder_def)

section \<open>One call of obfuscate, step by step\<close>

lemma runCodeTransformationStage_eq:
  "runCodeTransformationStage this code stage s =
     (case codeTransformersRunner_transform this code codeTransformersList stage (collaboratorState s) of
        (r, w') \<Rightarrow>
          (r, \<lparr>trace = trace s @ [LoggerInfo CodeTransformationStage (CodeStageValue stage),
                                   CodeTransformersRunnerTransform code codeTransformersList stage],
               collaboratorState = w'\<rparr>))"
  by (simp add: runCodeTransformationStage_def andThen_def logger_info_def collaborator_def
        split: prod.split)

lemma generateCode_eq:
  "generateCode this sourceCode astTree s =
     (case escodegen_generate this astTree (generateCode_escodegenParams this sourceCode) of
        Inl e \<Rightarrow> (Inl e, s\<lparr>trace := trace s @ [EscodegenGenerate astTree (generateCode_escodegenParams this sourceCode)]\<rparr>)
      | Inr g \<Rightarrow>
          (Inr (g\<lparr>generatorOutput_map :=
                  MapString (if truthyMap (generatorOutput_map g) then toString (generatorOutput_map g) else [])\<rparr>),
           s\<lparr>trace := trace s @ [EscodegenGenerate astTree (generateCode_escodegenParams this sourceCode)]\<rparr>))"
  by (simp add: generateCode_def andThen_def imported_def succeed_def split: sum.split)

lemma obfuscate_steps:
  assumes prep: "codeTransformersRunner_transform this (sourceText v) codeTransformersList
                   PreparingTransformers w = (Inr src', w1)"
    and parse: "ASTParserFacade_parse this src' (parseOptions this) = Inr astTree"
    and tr: "transformAstTree this astTree
               \<lparr>trace = tr0 @ startEvents this env w @
                   [LoggerInfo CodeTransformationStage (CodeStageValue PreparingTransformers),
                    CodeTransformersRunnerTransform (sourceText v) codeTransformersList PreparingTransformers,
                    ASTParserFacadeParse src' (parseOptions this)],
                collaboratorState = w1\<rparr> = (Inr obfuscatedAstTree, s2)"
    and gen: "escodegen_generate this obfuscatedAstTree (generateCode_escodegenParams this src') = Inr g"
    and fin: "codeTransformersRunner_transform this (generatorOutput_code g) codeTransformersList
                FinalizingTransformers (collaboratorState s2) = (Inr code, w3)"
  shows "obfuscate this env v \<lparr>trace = tr0, collaboratorState = w\<rparr> =
           (Inr \<lparr>getObfuscatedCode = code,
                 getSourceMap = MapString (if truthyMap (generatorOutput_map g)
                                           then toString (generatorOutput_map g) else [])\<rparr>,
            \<lparr>trace = trace s2 @
                [EscodegenGenerate obfuscatedAstTree (generateCode_escodegenParams this src'),
                 LoggerInfo CodeTransformationStage (CodeStageValue FinalizingTransformers),
                 CodeTransformersRunnerTransform (generatorOutput_code g) codeTransformersList
                   FinalizingTransformers,
                 LoggerSuccess ObfuscationCompleted
                   (NumberValue (real_of_int (Date_now env 1 - Date_now env 0) / 1000))],
             collaboratorState = w3\<rparr>)"
  using assms
  by (simp add: obfuscate_def Let_def andThen_def logger_info_def logger_success_def
        runCodeTransformationStage_eq generateCode_eq parseCode_def imported_def succeed_def
        getObfuscationResult_def obfuscationResultFactory_def sourceText_def startEvents_def)

lemma obfuscate_InrD:
  assumes "obfuscate this env v \<lparr>trace = tr0, collaboratorState = w\<rparr> = (Inr r, s')"
  shows "\<exists>src' w1 astTree obfuscatedAstTree s2 g code w3.
     codeTransformersRunner_transform this (sourceText v) codeTransformersList
                   PreparingTransformers w = (Inr src', w1) \<and>
     ASTParserFacade_parse this src' (parseOptions this) = Inr astTree \<and>
     transformAstTree this astTree
               \<lparr>trace = tr0 @ startEvents this env w @
                   [LoggerInfo CodeTransformationStage (CodeStageValue PreparingTransformers),
                    CodeTransformersRunnerTransform (sourceText v) codeTransformersList PreparingTransformers,
                    ASTParserFacadeParse src' (parseOptions this)],
                collaboratorState = w1\<rparr> = (Inr obfuscatedAstTree, s2) \<and>
     escodegen_generate this obfuscatedAstTree (generateCode_escodegenParams this src') = Inr g \<and>
     codeTransformersRunner_transform this (generatorOutput_code g) codeTransformersList
                FinalizingTransformers (collaboratorState s2) = (Inr code, w3)"
  using assms
  by (auto simp: obfuscate_def Let_def andThen_def logger_info_def logger_success_def
        runCodeTransformationStage_eq generateCode_eq parseCode_def imported_def succeed_def
        getObfuscationResult_def obfuscationResultFactory_def sourceText_def startEvents_def
        split: prod.splits sum.splits)

lemma transformAstTree_trace:
  assumes "transformAstTree this astTree s = (r, s')"
  shows "\<exists>evs. trace s' = trace s @ evs \<and> generateCalls evs = []"
proof -
  obtain r1 s1 where init: "runNodeTransformationStage this astTree Initializing s = (r1, s1)"
    by (cases "runNodeTransformationStage this astTree Initializing s")
  note t1 = runNodeTransformationStage_trace [OF init]
  show ?thesis
  proof (cases r1)
    case (Inl e)
    with init assms have "s' = s1" by (simp add: transformAstTree_runStages andThen_Inl)
    with t1 show ?thesis by simp
  next
    case (Inr astTree1)
    show ?thesis
    proof (cases "isEmptyAstTree astTree1")
      case True
      from transformAstTree_empty [OF init [unfolded Inr] True] assms
      have "s' = s1\<lparr>trace := trace s1 @ [LoggerWarn EmptySourceCode NoValue]\<rparr>" by simp
      with t1 show ?thesis by simp
    next
      case False
      with init Inr assms
      have "runStages this (filter (stageEnabled (options this)) (tl canonicalOrder)) astTree1 s1 = (r, s')"
        by (simp add: transformAstTree_runStages andThen_Inr)
      from runStages_trace [OF this] obtain evs where "trace s' = trace s1 @ evs" "generateCalls evs = []"
        by blast
      with t1 show ?thesis by simp
    qed
  qed
qed

lemma obfuscate_generateCalls:
  assumes "obfuscate this env v \<lparr>trace = tr0, collaboratorState = w\<rparr> = (Inr r, s')"
  shows "\<exists>src' w1 obfuscatedAstTree g.
           codeTransformersRunner_transform this (sourceText v) codeTransformersList
             PreparingTransformers w = (Inr src', w1) \<and>
           escodegen_generate this obfuscatedAstTree (generateCode_escodegenParams this src') = Inr g \<and>
           getSourceMap r = MapString (if truthyMap (generatorOutput_map g)
                                       then toString (generatorOutput_map g) else []) \<and>
           generateCalls (trace s')
             = generateCalls tr0 @ [(obfuscatedAstTree, generateCode_escodegenParams this src')]"
proof -
  from obfuscate_InrD [OF assms] obtain src' w1 astTree obfuscatedAstTree s2 g code w3 where
    prep: "codeTransformersRunner_transform this (sourceText v) codeTransformersList
                   PreparingTransformers w = (Inr src', w1)" and
    parse: "ASTParserFacade_parse this src' (parseOptions this) = Inr astTree" and
    tr: "transformAstTree this astTree
               \<lparr>trace = tr0 @ startEvents this env w @
                   [LoggerInfo CodeTransformationStage (CodeStageValue PreparingTransformers),
                    CodeTransformersRunnerTransform (sourceText v) codeTransformersList PreparingTransformers,
                    ASTParserFacadeParse src' (parseOptions this)],
                collaboratorState = w1\<rparr> = (Inr obfuscatedAstTree, s2)" and
    gen: "escodegen_generate this obfuscatedAstTree (generateCode_escodegenParams this src') = Inr g" and
    fin: "codeTransformersRunner_transform this (generatorOutput_code g) codeTransformersList
                FinalizingTransformers (collaboratorState s2) = (Inr code, w3)"
    by blast
  from obfuscate_steps [OF prep parse tr gen fin] assms
  have r: "r = \<lparr>getObfuscatedCode = code,
                 getSourceMap = MapString (if truthyMap (generatorOutput_map g)
                                           then toString (generatorOutput_map g) else [])\<rparr>"
    and s': "s' = \<lparr>trace = trace s2 @
                [EscodegenGenerate obfuscatedAstTree (generateCode_escodegenParams this src'),
                 LoggerInfo CodeTransformationStage (CodeStageValue FinalizingTransformers),
                 CodeTransformersRunnerTransform (generatorOutput_code g) codeTransformersList
                   FinalizingTransformers,
                 LoggerSuccess ObfuscationCompleted
                   (NumberValue (real_of_int (Date_now env 1 - Date_now env 0) / 1000))],
             collaboratorState = w3\<rparr>"
    by simp_all
  from transformAstTree_trace [OF tr] obtain evs where
    evs: "trace s2 = (tr0 @ startEvents this env w @
                   [LoggerInfo CodeTransformationStage (CodeStageValue PreparingTransformers),
                    CodeTransformersRunnerTransform (sourceText v) codeTransformersList PreparingTransformers,
                    ASTParserFacadeParse src' (parseOptions this)]) @ evs" "generateCalls evs = []"
    by auto
  have "generateCalls (trace s')
          = generateCalls tr0 @ [(obfuscatedAstTree, generateCode_escodegenParams this src')]"
    by (simp add: s' evs startEvents_def)
  with prep gen r show ?thesis by auto
qed

section \<open>The empty program\<close>

text \<open>
  Claim C2. If the Initializing node stage returns a Program with an empty body and
  neither leading nor trailing comments (both properties absent, as the source tests
  them), then \<open>transformAstTree\<close> logs the
  \<open>EmptySourceCode\<close> warning once, calls the runner for no further node stage, throws
  nothing and returns that tree. In the call of \<open>obfuscate\<close> around it, the generator
  is then called on that empty tree, and when the generator and the finalizing code
  stage return, the call returns a result. The trace of the whole call is given event
  by event.
\<close>

theorem empty_program_short_circuit:
  assumes init: "nodeTransformersRunner_transform this astTree nodeTransformersList Initializing w1
                   = (Inr astTree1, w2)"
    and empty: "isEmptyAstTree astTree1"
  shows "transformAstTree this astTree \<lparr>trace = tr, collaboratorState = w1\<rparr> =
           (Inr astTree1,
            \<lparr>trace = tr @ [LoggerInfo NodeTransformationStage (NodeStageValue Initializing),
                           NodeTransformersRunnerTransform astTree nodeTransformersList Initializing,
                           LoggerWarn EmptySourceCode NoValue],
             collaboratorState = w2\<rparr>) \<and>
         (codeTransformersRunner_transform this (sourceText v) codeTransformersList
            PreparingTransformers w = (Inr src', w1) \<longrightarrow>
          ASTParserFacade_parse this src' (parseOptions this) = Inr astTree \<longrightarrow>
          escodegen_generate this astTree1 (generateCode_escodegenParams this src') = Inr g \<longrightarrow>
          codeTransformersRunner_transform this (generatorOutput_code g) codeTransformersList
            FinalizingTransformers w2 = (Inr code, w3) \<longrightarrow>
          obfuscate this env v \<lparr>trace = tr0, collaboratorState = w\<rparr> =
            (Inr \<lparr>getObfuscatedCode = code,
                  getSourceMap = MapString (if truthyMap (generatorOutput_map g)
                                            then toString (generatorOutput_map g) else [])\<rparr>,
             \<lparr>trace = tr0 @ startEvents this env w @
                 [LoggerInfo CodeTransformationStage (CodeStageValue PreparingTransformers),
                  CodeTransformersRunnerTransform (sourceText v) codeTransformersList PreparingTransformers,
                  ASTParserFacadeParse src' (parseOptions this),
                  LoggerInfo NodeTransformationStage (NodeStageValue Initializing),
                  NodeTransformersRunnerTransform astTree nodeTransformersList Initializing,
                  LoggerWarn EmptySourceCode NoValue,
                  EscodegenGenerate astTree1 (generateCode_escodegenParams this src'),
                  LoggerInfo CodeTransformationStage (CodeStageValue FinalizingTransformers),
                  CodeTransformersRunnerTransform (generatorOutput_code g) codeTransformersList
                    FinalizingTransformers,
                  LoggerSuccess ObfuscationCompleted
                    (NumberValue (real_of_int (Date_now env 1 - Date_now env 0) / 1000))],
              collaboratorState = w3\<rparr>))"
proof -
  have tr: "\<And>tr. transformAstTree this astTree \<lparr>trace = tr, collaboratorState = w1\<rparr> =
           (Inr astTree1,
            \<lparr>trace = tr @ [LoggerInfo NodeTransformationStage (NodeStageValue Initializing),
                           NodeTransformersRunnerTransform astTree nodeTransformersList Initializing,
                           LoggerWarn EmptySourceCode NoValue],
             collaboratorState = w2\<rparr>)"
  proof -
    fix tr
    have "runNodeTransformationStage this astTree Initializing \<lparr>trace = tr, collaboratorState = w1\<rparr>
        = (Inr astTree1,
           \<lparr>trace = tr @ [LoggerInfo NodeTransformationStage (NodeStageValue Initializing),
                          NodeTransformersRunnerTransform astTree nodeTransformersList Initializing],
            collaboratorState = w2\<rparr>)"
      by (simp add: runNodeTransformationStage_eq init)
    from transformAstTree_empty [OF this empty]
    show "transformAstTree this astTree \<lparr>trace = tr, collaboratorState = w1\<rparr> =
           (Inr astTree1,
            \<lparr>trace = tr @ [LoggerInfo NodeTransformationStage (NodeStageValue Initializing),
                           NodeTransformersRunnerTransform astTree nodeTransformersList Initializing,
                           LoggerWarn EmptySourceCode NoValue],
             collaboratorState = w2\<rparr>)"
      by simp
  qed
  show ?thesis
  proof (intro conjI impI)
    show "transformAstTree this astTree \<lparr>trace = tr, collaboratorState = w1\<rparr> =
           (Inr astTree1,
            \<lparr>trace = tr @ [LoggerInfo NodeTransformationStage (NodeStageValue Initializing),
                           NodeTransformersRunnerTransform astTree nodeTransformersList Initializing,
                           LoggerWarn EmptySourceCode NoValue],
             collaboratorState = w2\<rparr>)"
      by (rule tr)
  next
    assume prep: "codeTransformersRunner_transform this (sourceText v) codeTransformersList
            PreparingTransformers w = (Inr src', w1)"
      and parse: "ASTParserFacade_parse this src' (parseOptions this) = Inr astTree"
      and gen: "escodegen_generate this astTree1 (generateCode_escodegenParams this src') = Inr g"
      and fin: "codeTransformersRunner_transform this (generatorOutput_code g) codeTransformersList
            FinalizingTransformers w2 = (Inr code, w3)"
    from fin have fin': "\<And>tr. codeTransformersRunner_transform this (generatorOutput_code g)
        codeTransformersList FinalizingTransformers
        (collaboratorState \<lparr>trace = tr, collaboratorState = w2\<rparr>) = (Inr code, w3)"
      by simp
    from obfuscate_steps [OF prep parse tr gen fin', where env = env and ?tr0.0 = tr0]
    show "obfuscate this env v \<lparr>trace = tr0, collaboratorState = w\<rparr> =
            (Inr \<lparr>getObfuscatedCode = code,
                  getSourceMap = MapString (if truthyMap (generatorOutput_map g)
                                            then toString (generatorOutput_map g) else [])\<rparr>,
             \<lparr>trace = tr0 @ startEvents this env w @
                 [LoggerInfo CodeTransformationStage (CodeStageValue PreparingTransformers),
                  CodeTransformersRunnerTransform (sourceText v) codeTransformersList PreparingTransformers,
                  ASTParserFacadeParse src' (parseOptions this),
                  LoggerInfo NodeTransformationStage (NodeStageValue Initializing),
                  NodeTransformersRunnerTransform astTree nodeTransformersList Initializing,
                  LoggerWarn EmptySourceCode NoValue,
                  EscodegenGenerate astTree1 (generateCode_escodegenParams this src'),
                  LoggerInfo CodeTransformationStage (CodeStageValue FinalizingTransformers),
                  CodeTransformersRunnerTransform (generatorOutput_code g) codeTransformersList
                    FinalizingTransformers,
                  LoggerSuccess ObfuscationCompleted
                    (NumberValue (real_of_int (Date_now env 1 - Date_now env 0) / 1000))],
              collaboratorState = w3\<rparr>)"
      by simp
  qed
qed

text \<open>
  Scenario 1 of the specification: the empty source text with every option off. The
  result is the empty code with the empty map, Initializing is the only node stage run,
  and the warning is in the trace once.
\<close>

theorem empty_program_short_circuit_witness:
  "nodeTransformersRunner_transform (exampleObfuscator plainOptions) emptyProgram nodeTransformersList
     Initializing [] = (Inr emptyProgram, []) \<and>
   isEmptyAstTree emptyProgram \<and>
   fst (obfuscate (exampleObfuscator plainOptions) exampleEnvironment (JSString []) initialWorld)
     = Inr \<lparr>getObfuscatedCode = [], getSourceMap = MapString []\<rparr> \<and>
   nodeStagesRun (trace (snd (obfuscate (exampleObfuscator plainOptions) exampleEnvironment
     (JSString []) initialWorld))) = [Initializing] \<and>
   count_list (trace (snd (obfuscate (exampleObfuscator plainOptions) exampleEnvironment
     (JSString []) initialWorld))) (LoggerWarn EmptySourceCode NoValue) = 1"
proof -
  let ?obf = "exampleObfuscator plainOptions"
  have init: "nodeTransformersRunner_transform ?obf emptyProgram nodeTransformersList
     Initializing [] = (Inr emptyProgram, [])"
    by (simp add: exampleObfuscator_def exampleNodeTransformersRunner_def)
  have empty: "isEmptyAstTree emptyProgram"
    by (simp add: isEmptyAstTree_def isProgramNode_def emptyProgram_def)
  have prep: "codeTransformersRunner_transform ?obf (sourceText (JSString [])) codeTransformersList
            PreparingTransformers [] = (Inr [], [])"
    by (simp add: exampleObfuscator_def sourceText_def)
  have parse: "ASTParserFacade_parse ?obf [] (parseOptions ?obf) = Inr emptyProgram"
    by (simp add: exampleObfuscator_def exampleParse_def emptyProgram_def)
  have gen: "escodegen_generate ?obf emptyProgram (generateCode_escodegenParams ?obf [])
     = Inr \<lparr>generatorOutput_code = [], generatorOutput_map = MapNull\<rparr>"
    by (simp add: exampleObfuscator_def exampleGenerate_def emptyProgram_def
          generateCode_escodegenParams_def escodegenParams_def plainOptions_def)
  have fin: "codeTransformersRunner_transform ?obf
      (generatorOutput_code \<lparr>generatorOutput_code = [], generatorOutput_map = MapNull\<rparr>)
      codeTransformersList FinalizingTransformers [] = (Inr [], [])"
    by (simp add: exampleObfuscator_def)
  from empty_program_short_circuit [OF init empty, of "[]" "JSString []" "[]" "[]"
             "\<lparr>generatorOutput_code = [], generatorOutput_map = MapNull\<rparr>" "[]" "[]"
             exampleEnvironment "[]"]
    prep parse gen fin init empty
  show ?thesis
    by (simp add: initialWorld_def startEvents_def)
qed

section \<open>A source that is not a string\<close>

text \<open>
  Claim C5. For every input of \<open>obfuscate\<close> that is not a string, the input is coerced
  to the empty string before anything else runs: the call is, in every state, the call
  on the empty string, with the same outcome, the same trace and the same collaborators'
  state. So it throws only if the call on the empty string does.
\<close>

theorem obfuscate_non_string_source:
  assumes "typeof v \<noteq> ''string''"
  shows "obfuscate this env v = obfuscate this env (JSString [])"
  using assms by (simp add: obfuscate_def)

theorem obfuscate_non_string_source_witness:
  "typeof JSUndefined \<noteq> ''string'' \<and>
   obfuscate (exampleObfuscator plainOptions) exampleEnvironment JSUndefined initialWorld
     = obfuscate (exampleObfuscator plainOptions) exampleEnvironment (JSString []) initialWorld \<and>
   fst (obfuscate (exampleObfuscator plainOptions) exampleEnvironment JSUndefined initialWorld)
     = Inr \<lparr>getObfuscatedCode = [], getSourceMap = MapString []\<rparr>"
  using obfuscate_non_string_source [of JSUndefined "exampleObfuscator plainOptions" exampleEnvironment]
  by (simp add: driver_defs example_defs)

section \<open>The options of the generator\<close>

lemma generateCode_escodegenParams_facts:
  "format (generateCode_escodegenParams this sourceCode)
     = Some \<lparr>format_compact = compact (options this)\<rparr>"
  "sourceMap (options this) \<Longrightarrow> sourceMapSourcesMode (options this) = SourcesContent \<Longrightarrow>
     generate_sourceMap (generateCode_escodegenParams this sourceCode) = Some ''sourceMap'' \<and>
     sourceContent (generateCode_escodegenParams this sourceCode) = Some sourceCode"
  "sourceMap (options this) \<Longrightarrow> sourceMapSourcesMode (options this) \<noteq> SourcesContent \<Longrightarrow>
     generate_sourceMap (generateCode_escodegenParams this sourceCode)
       = Some (if inputFileName (options this) = [] then ''sourceMap'' else inputFileName (options this)) \<and>
     sourceContent (generateCode_escodegenParams this sourceCode) = None"
  "\<not> sourceMap (options this) \<Longrightarrow>
     generate_sourceMap (generateCode_escodegenParams this sourceCode) = None \<and>
     sourceContent (generateCode_escodegenParams this sourceCode) = None"
  by (simp_all add: generateCode_escodegenParams_def escodegenParams_def Let_def)

lemma obfuscate_collapse:
  "fst (obfuscate this env v s) = Inr r \<Longrightarrow> obfuscate this env v s = (Inr r, snd (obfuscate this env v s))"
  by (cases "obfuscate this env v s") simp

text \<open>
  Claim C6, as amended. For every call of \<open>obfuscate\<close> that returns, the generator is
  called once, with options derived as follows: \<open>format.compact\<close> is the \<open>compact\<close>
  option; when source maps are enabled and \<open>sourceMapSourcesMode\<close> is
  \<open>SourcesContent\<close>, \<open>sourceMap\<close> is \<open>'sourceMap'\<close> and \<open>sourceContent\<close> is the
  source text as the preparing code stage returned it, which is the text that was
  parsed; otherwise, when source maps are enabled, only a file name is attached
  (\<open>inputFileName\<close>, or \<open>'sourceMap'\<close> if that is empty) and no source content; when
  source maps are disabled, neither is attached.
\<close>

theorem generator_options:
  assumes "obfuscate this env v \<lparr>trace = tr0, collaboratorState = w\<rparr> = (Inr r, s')"
  shows "\<exists>src' w1 obfuscatedAstTree params.
           codeTransformersRunner_transform this (sourceText v) codeTransformersList
             PreparingTransformers w = (Inr src', w1) \<and>
           generateCalls (trace s') = generateCalls tr0 @ [(obfuscatedAstTree, params)] \<and>
           format params = Some \<lparr>format_compact = compact (options this)\<rparr> \<and>
           (sourceMap (options this) \<and> sourceMapSourcesMode (options this) = SourcesContent \<longrightarrow>
              generate_sourceMap params = Some ''sourceMap'' \<and> sourceContent params = Some src') \<and>
           (sourceMap (options this) \<and> sourceMapSourcesMode (options this) \<noteq> SourcesContent \<longrightarrow>
              generate_sourceMap params
                = Some (if inputFileName (options this) = [] then ''sourceMap''
                        else inputFileName (options this)) \<and>
              sourceContent params = None) \<and>
           (\<not> sourceMap (options this) \<longrightarrow>
              generate_sourceMap params = None \<and> sourceContent params = None)"
proof -
  from obfuscate_generateCalls [OF assms] obtain src' w1 obfuscatedAstTree where
    "codeTransformersRunner_transform this (sourceText v) codeTransformersList
             PreparingTransformers w = (Inr src', w1)"
    "generateCalls (trace s')
       = generateCalls tr0 @ [(obfuscatedAstTree, generateCode_escodegenParams this src')]"
    by blast
  with generateCode_escodegenParams_facts [of this src'] show ?thesis
    by (intro exI [of _ src'] exI [of _ w1] exI [of _ obfuscatedAstTree]
          exI [of _ "generateCode_escodegenParams this src'"]) simp
qed

text \<open>
  Three calls, one for each case of the options: a source with a hashbang line in
  \<open>SourcesContent\<close> mode, where the text after the preparing stage is embedded; a
  plain source in \<open>Sources\<close> mode with an input file name; and a plain source with
  source maps disabled.
\<close>

theorem generator_options_witness:
  "fst (obfuscate (exampleObfuscator exampleOptions) exampleEnvironment (JSString hashbangSource)
          \<lparr>trace = [], collaboratorState = []\<rparr>)
     = Inr \<lparr>getObfuscatedCode = ''#!/usr/bin/env node'' @ [lineFeed] @ ''a;'',
            getSourceMap = MapString (''sourceMap:'' @ plainSource)\<rparr> \<and>
   map (sourceContent \<circ> snd) (generateCalls (trace (snd (obfuscate (exampleObfuscator exampleOptions)
      exampleEnvironment (JSString hashbangSource) \<lparr>trace = [], collaboratorState = []\<rparr>))))
     = [Some plainSource] \<and>
   map (generate_sourceMap \<circ> snd) (generateCalls (trace (snd (obfuscate (exampleObfuscator exampleOptions)
      exampleEnvironment (JSString hashbangSource) \<lparr>trace = [], collaboratorState = []\<rparr>))))
     = [Some ''sourceMap''] \<and>
   fst (obfuscate (exampleObfuscator fileOptions) exampleEnvironment (JSString plainSource)
          \<lparr>trace = [], collaboratorState = []\<rparr>)
     = Inr \<lparr>getObfuscatedCode = ''a;'', getSourceMap = MapString ''input.js''\<rparr> \<and>
   map (generate_sourceMap \<circ> snd) (generateCalls (trace (snd (obfuscate (exampleObfuscator fileOptions)
      exampleEnvironment (JSString plainSource) \<lparr>trace = [], collaboratorState = []\<rparr>))))
     = [Some ''input.js''] \<and>
   map (sourceContent \<circ> snd) (generateCalls (trace (snd (obfuscate (exampleObfuscator fileOptions)
      exampleEnvironment (JSString plainSource) \<lparr>trace = [], collaboratorState = []\<rparr>))))
     = [None] \<and>
   fst (obfuscate (exampleObfuscator plainOptions) exampleEnvironment (JSString plainSource)
          \<lparr>trace = [], collaboratorState = []\<rparr>)
     = Inr \<lparr>getObfuscatedCode = ''a;'', getSourceMap = MapString []\<rparr> \<and>
   map (generate_sourceMap \<circ> snd) (generateCalls (trace (snd (obfuscate (exampleObfuscator plainOptions)
      exampleEnvironment (JSString plainSource) \<lparr>trace = [], collaboratorState = []\<rparr>))))
     = [None]"
proof -
  let ?s0 = "\<lparr>trace = [], collaboratorState = []\<rparr> :: string world"
  have a: "fst (obfuscate (exampleObfuscator exampleOptions) exampleEnvironment (JSString hashbangSource) ?s0)
     = Inr \<lparr>getObfuscatedCode = ''#!/usr/bin/env node'' @ [lineFeed] @ ''a;'',
            getSourceMap = MapString (''sourceMap:'' @ plainSource)\<rparr>"
    by (simp add: driver_defs example_defs hashbangSource_def plainSource_def lineFeed_def Let_def)
  have b: "fst (obfuscate (exampleObfuscator fileOptions) exampleEnvironment (JSString plainSource) ?s0)
     = Inr \<lparr>getObfuscatedCode = ''a;'', getSourceMap = MapString ''input.js''\<rparr>"
    by (simp add: driver_defs example_defs plainSource_def Let_def)
  have c: "fst (obfuscate (exampleObfuscator plainOptions) exampleEnvironment (JSString plainSource) ?s0)
     = Inr \<lparr>getObfuscatedCode = ''a;'', getSourceMap = MapString []\<rparr>"
    by (simp add: driver_defs example_defs plainSource_def Let_def)
  have pa: "codeTransformersRunner_transform (exampleObfuscator exampleOptions)
      (sourceText (JSString hashbangSource)) codeTransformersList PreparingTransformers []
      = (Inr plainSource, ''#!/usr/bin/env node'' @ [lineFeed])"
    by (simp add: exampleObfuscator_def sourceText_def hashbangSource_def plainSource_def lineFeed_def)
  have pb: "\<And>opts. codeTransformersRunner_transform (exampleObfuscator opts)
      (sourceText (JSString plainSource)) codeTransformersList PreparingTransformers []
      = (Inr plainSource, [])"
    by (simp add: exampleObfuscator_def sourceText_def plainSource_def)
  from generator_options [OF obfuscate_collapse [OF a]]
       generator_options [OF obfuscate_collapse [OF b]]
       generator_options [OF obfuscate_collapse [OF c]] a b c pa pb
  show ?thesis
    by (auto simp: exampleObfuscator_def exampleOptions_def fileOptions_def plainOptions_def)
qed

text \<open>
  The claim as stated fails where the preparing code stage rewrites the source: for a
  source that starts with a hashbang line, in \<open>SourcesContent\<close> mode, the generator is
  given the text without that line as \<open>sourceContent\<close>, not the text that was passed
  to \<open>obfuscate\<close>.
\<close>

theorem source_content_hashbang_counterexample:
  "map (sourceContent \<circ> snd) (generateCalls (trace (snd (obfuscate (exampleObfuscator exampleOptions)
      exampleEnvironment (JSString hashbangSource) initialWorld)))) = [Some ''var a=1;''] \<and>
   hashbangSource \<noteq> ''var a=1;''"
  by (simp add: driver_defs example_defs hashbangSource_def lineFeed_def Let_def)

section \<open>The map of the result\<close>

text \<open>
  Claim C7. For every call of \<open>obfuscate\<close> that returns, the map of the result is a
  string, never \<open>null\<close> or \<open>undefined\<close>: the empty string when the generator produced no
  map, and otherwise the generator's map converted to a string. When source maps are
  disabled the generator is asked for no source map, so a generator that produces a map
  only when asked for one yields the empty string.
\<close>

theorem result_map_is_string:
  assumes "obfuscate this env v \<lparr>trace = tr0, collaboratorState = w\<rparr> = (Inr r, s')"
  shows "\<exists>obfuscatedAstTree params g.
           generateCalls (trace s') = generateCalls tr0 @ [(obfuscatedAstTree, params)] \<and>
           escodegen_generate this obfuscatedAstTree params = Inr g \<and>
           getSourceMap r = MapString (if generatorOutput_map g = MapNull then []
                                       else toString (generatorOutput_map g)) \<and>
           getSourceMap r \<noteq> MapNull \<and>
           (\<not> sourceMap (options this) \<longrightarrow>
              generate_sourceMap params = None \<and> sourceContent params = None)"
proof -
  from obfuscate_generateCalls [OF assms] obtain src' w1 obfuscatedAstTree g where
    gen: "escodegen_generate this obfuscatedAstTree (generateCode_escodegenParams this src') = Inr g" and
    m: "getSourceMap r = MapString (if truthyMap (generatorOutput_map g)
                                       then toString (generatorOutput_map g) else [])" and
    calls: "generateCalls (trace s')
              = generateCalls tr0 @ [(obfuscatedAstTree, generateCode_escodegenParams this src')]"
    by blast
  have "(if truthyMap (generatorOutput_map g) then toString (generatorOutput_map g) else [])
      = (if generatorOutput_map g = MapNull then [] else toString (generatorOutput_map g))"
    by (cases "generatorOutput_map g") simp_all
  with m have m': "getSourceMap r = MapString (if generatorOutput_map g = MapNull then []
                                       else toString (generatorOutput_map g))" by simp
  from gen calls m' generateCode_escodegenParams_facts(4) [of this src'] show ?thesis
    by (intro exI [of _ obfuscatedAstTree] exI [of _ "generateCode_escodegenParams this src'"]
          exI [of _ g]) simp
qed

text \<open>
  Two calls on the same source: with source maps enabled the generator returns a map
  object and the result holds its string; with source maps disabled the generator
  returns \<open>null\<close> and the result holds the empty string.
\<close>

theorem result_map_is_string_witness:
  "fst (obfuscate (exampleObfuscator exampleOptions) exampleEnvironment (JSString plainSource)
          \<lparr>trace = [], collaboratorState = []\<rparr>)
     = Inr \<lparr>getObfuscatedCode = ''a;'', getSourceMap = MapString (''sourceMap:'' @ plainSource)\<rparr> \<and>
   escodegen_generate (exampleObfuscator exampleOptions) exampleProgram
       (generateCode_escodegenParams (exampleObfuscator exampleOptions) plainSource)
     = Inr \<lparr>generatorOutput_code = ''a;'', generatorOutput_map = MapObject (''sourceMap:'' @ plainSource)\<rparr> \<and>
   fst (obfuscate (exampleObfuscator plainOptions) exampleEnvironment (JSString plainSource)
          \<lparr>trace = [], collaboratorState = []\<rparr>)
     = Inr \<lparr>getObfuscatedCode = ''a;'', getSourceMap = MapString []\<rparr> \<and>
   \<not> sourceMap (options (exampleObfuscator plainOptions)) \<and>
   escodegen_generate (exampleObfuscator plainOptions) exampleProgram
       (generateCode_escodegenParams (exampleObfuscator plainOptions) plainSource)
     = Inr \<lparr>generatorOutput_code = ''a;'', generatorOutput_map = MapNull\<rparr>"
proof -
  let ?s0 = "\<lparr>trace = [], collaboratorState = []\<rparr> :: string world"
  have a: "fst (obfuscate (exampleObfuscator exampleOptions) exampleEnvironment (JSString plainSource) ?s0)
     = Inr \<lparr>getObfuscatedCode = ''a;'', getSourceMap = MapString (''sourceMap:'' @ plainSource)\<rparr>"
    by (simp add: driver_defs example_defs plainSource_def Let_def)
  have c: "fst (obfuscate (exampleObfuscator plainOptions) exampleEnvironment (JSString plainSource) ?s0)
     = Inr \<lparr>getObfuscatedCode = ''a;'', getSourceMap = MapString []\<rparr>"
    by (simp add: driver_defs example_defs plainSource_def Let_def)
  from result_map_is_string [OF obfuscate_collapse [OF a]]
       result_map_is_string [OF obfuscate_collapse [OF c]] a c
  show ?thesis
    by (simp add: example_defs generateCode_escodegenParams_def escodegenParams_def plainSource_def)
qed

section \<open>Determinism\<close>

lemma agreeI:
  "(\<And>s s'. collaboratorState s = collaboratorState s' \<Longrightarrow>
      fst (m s) = fst (m' s') \<and> collaboratorState (snd (m s)) = collaboratorState (snd (m' s')))
   \<Longrightarrow> agree m m'"
  by (simp add: agree_def)

lemma agreeD:
  "agree m m' \<Longrightarrow> collaboratorState s = collaboratorState s' \<Longrightarrow>
   fst (m s) = fst (m' s') \<and> collaboratorState (snd (m s)) = collaboratorState (snd (m' s'))"
  by (simp add: agree_def)

lemma agree_andThen:
  assumes m: "agree m m'" and f: "\<And>x. agree (f x) (f' x)"
  shows "agree (andThen m f) (andThen m' f')"
proof (rule agreeI)
  fix s s' :: "'a world"
  assume eq: "collaboratorState s = collaboratorState s'"
  obtain r s1 where 1: "m s = (r, s1)" by (cases "m s")
  obtain r' s1' where 2: "m' s' = (r', s1')" by (cases "m' s'")
  from agreeD [OF m eq] 1 2 have r: "r' = r" and st: "collaboratorState s1 = collaboratorState s1'"
    by simp_all
  show "fst (andThen m f s) = fst (andThen m' f' s') \<and>
        collaboratorState (snd (andThen m f s)) = collaboratorState (snd (andThen m' f' s'))"
  proof (cases r)
    case (Inl e)
    with 1 2 r st show ?thesis by (simp add: andThen_def)
  next
    case (Inr x)
    with 1 2 r agreeD [OF f [of x] st] show ?thesis by (simp add: andThen_def)
  qed
qed

lemma agree_succeed: "agree (succeed x) (succeed x)"
  by (simp add: agree_def succeed_def)

lemma agree_logger_info: "agree (logger_info message v) (logger_info message' v')"
  by (simp add: agree_def logger_info_def)

lemma agree_logger_warn: "agree (logger_warn message v) (logger_warn message' v')"
  by (simp add: agree_def logger_warn_def)

lemma agree_logger_success: "agree (logger_success message v) (logger_success message' v')"
  by (simp add: agree_def logger_success_def)

lemma agree_collaborator: "agree (collaborator ev m) (collaborator ev' m)"
  by (simp add: agree_def collaborator_def split: prod.split)

lemma agree_imported: "agree (imported ev r) (imported ev' r)"
  by (simp add: agree_def imported_def)

lemma agree_if:
  "agree m m' \<Longrightarrow> agree n n' \<Longrightarrow> agree (if b then m else n) (if b then m' else n')"
  by simp

lemma agree_seed:
  "agree (\<lambda>s. logger_info message (f (collaboratorState s)) s)
         (\<lambda>s. logger_info message (f (collaboratorState s)) s)"
  by (simp add: agree_def logger_info_def)

lemmas agree_intros =
  agree_andThen agree_succeed agree_logger_info agree_logger_warn agree_logger_success
  agree_collaborator agree_imported agree_if agree_seed

lemma agree_runNodeTransformationStage:
  "agree (runNodeTransformationStage this astTree stage) (runNodeTransformationStage this astTree stage)"
  unfolding runNodeTransformationStage_def by (intro agree_intros)

lemma agree_runCodeTransformationStage:
  "agree (runCodeTransformationStage this code stage) (runCodeTransformationStage this code stage)"
  unfolding runCodeTransformationStage_def by (intro agree_intros)

lemma agree_transformAstTree:
  "agree (transformAstTree this astTree) (transformAstTree this astTree)"
  unfolding transformAstTree_def
  by (intro agree_intros agree_runNodeTransformationStage)

lemma agree_generateCode:
  "agree (generateCode this sourceCode astTree) (generateCode this sourceCode astTree)"
  unfolding generateCode_def by (intro agree_intros)

lemma agree_obfuscate: "agree (obfuscate this env v) (obfuscate this env' v)"
  unfolding obfuscate_def Let_def parseCode_def
  by (intro agree_intros agree_runCodeTransformationStage agree_transformAstTree agree_generateCode)

text \<open>
  Claim C8. Two calls of \<open>obfuscate\<close> on the same source, with the same options and
  collaborators, started from the same state of the collaborators (which holds the
  random generator, and so its seed), have the same outcome: the same code and map, or
  the same error. That holds whatever the clock readings and the process environment
  of the two calls are and whatever was logged before: what the driver reads from them
  goes to the logger only.
\<close>

theorem obfuscate_deterministic:
  "fst (obfuscate this env sourceCode \<lparr>trace = tr, collaboratorState = w\<rparr>)
     = fst (obfuscate this env' sourceCode \<lparr>trace = tr', collaboratorState = w\<rparr>)"
  using agreeD [OF agree_obfuscate [of this env sourceCode env'],
                 of "\<lparr>trace = tr, collaboratorState = w\<rparr>" "\<lparr>trace = tr', collaboratorState = w\<rparr>"]
  by simp

end
